theory Spec2Isabelle
  imports Complex_Main
begin

section \<open>Strings of the calculator\<close>

text \<open>
  The calculator of \<^verbatim>\<open>Advance_Calculator.py\<close> works on Python strings, which are
  sequences of Unicode code points. A \<^typ>\<open>char\<close> stands here for one code point below 256
  (the Latin-1 range), so that \<^typ>\<open>string\<close> covers the ASCII text the keypad produces
  as well as the glyphs U+00D7 (multiplication sign) and U+00F7 (division sign) that the
  evaluator rewrites. Code points from 256 on are not modelled.
\<close>

definition times_glyph :: char where
  "times_glyph = char_of (215 :: nat)"

definition div_glyph :: char where
  "div_glyph = char_of (247 :: nat)"

text \<open>
  \<^verbatim>\<open>str.isdigit\<close> on one character: the ASCII digits and, below 256, the three
  superscript digits U+00B2, U+00B3 and U+00B9.
\<close>

definition isdigit :: "char \<Rightarrow> bool" where
  "isdigit c \<longleftrightarrow>
     (let n = (of_char c :: nat)
      in (48 \<le> n \<and> n \<le> 57) \<or> n = 178 \<or> n = 179 \<or> n = 185)"

text \<open>
  The characters \<^verbatim>\<open>str.strip()\<close> removes: below 256 these are U+0009 to U+000D,
  U+001C to U+001F, the space, U+0085 and U+00A0.
\<close>

definition isspace :: "char \<Rightarrow> bool" where
  "isspace c \<longleftrightarrow>
     (let n = (of_char c :: nat)
      in (9 \<le> n \<and> n \<le> 13) \<or> (28 \<le> n \<and> n \<le> 32) \<or> n = 133 \<or> n = 160)"

definition strip :: "string \<Rightarrow> string" where
  "strip s = rev (dropWhile isspace (rev (dropWhile isspace s)))"

text \<open>\<^verbatim>\<open>s.replace(old, new)\<close> for a pattern \<open>old\<close> of one character.\<close>

definition replace :: "char \<Rightarrow> string \<Rightarrow> string \<Rightarrow> string" where
  "replace old new s = concat (map (\<lambda>c. if c = old then new else [c]) s)"

text \<open>\<^verbatim>\<open>xs.insert(j, x)\<close>: a negative index counts from the end, and both ends clamp.\<close>

definition list_insert :: "'a list \<Rightarrow> int \<Rightarrow> 'a \<Rightarrow> 'a list" where
  "list_insert xs j x =
     (let n = int (length xs);
          k = (if j < 0 then max 0 (j + n) else min j n)
      in take (nat k) xs @ [x] @ drop (nat k) xs)"

text \<open>\<^verbatim>\<open>xs.pop()\<close>, repeated \<open>n\<close> times on a list of at least \<open>n\<close> elements.\<close>

definition pop_n :: "nat \<Rightarrow> 'a list \<Rightarrow> 'a list" where
  "pop_n n xs = (butlast ^^ n) xs"

section \<open>The preprocessor of \<^verbatim>\<open>SafeEvaluator.eval\<close>\<close>

text \<open>
  Lines 158 to 161: three glyph replacements, then the percent sign.
\<close>

definition substitute :: "string \<Rightarrow> string" where
  "substitute expr =
     replace (CHR ''%'') ''/100''
       (replace (CHR ''^'') ''**''
         (replace div_glyph ''/''
           (replace times_glyph ''*'' expr)))"

text \<open>
  The backward scan of lines 177 to 186 over the list \<open>out\<close> of emitted pieces. The
  third argument is \<open>j + 1\<close> for the index \<open>j\<close> the loop is about to look at; the result
  is the final \<open>j\<close>, which is \<open>-1\<close> when no unmatched opening parenthesis was emitted.
  A piece is compared as a whole, as \<^verbatim>\<open>out[j] == "("\<close> does.
\<close>

fun find_open :: "string list \<Rightarrow> int \<Rightarrow> nat \<Rightarrow> int" where
  "find_open out depth 0 = - 1"
| "find_open out depth (Suc j) =
     (if out ! j = '')'' then find_open out (depth + 1) j
      else if out ! j = ''('' then
        (if depth - 1 = 0 then int j else find_open out (depth - 1) j)
      else find_open out depth j)"

definition is_run_char :: "char \<Rightarrow> bool" where
  "is_run_char c \<longleftrightarrow> isdigit c \<or> c = CHR ''.''"

text \<open>
  The main loop of \<^verbatim>\<open>_replace_factorial\<close> (lines 169 to 211). The first argument is
  the text from index \<open>i\<close> on, the second the list \<open>out\<close>. The backward scan has no
  effect of its own, so it is computed only where its result is used.
\<close>

function replace_loop :: "string \<Rightarrow> string list \<Rightarrow> string list" where
  "replace_loop [] out = out"
| "replace_loop (c # rest) out =
     (if c = CHR ''!'' then replace_loop rest (out @ [''!''])
      else if c = CHR '')'' \<and> rest \<noteq> [] \<and> hd rest = CHR ''!'' then
        replace_loop (tl rest)
          (list_insert out (find_open out 1 (length out)) ''fact('' @ ['')''])
      else if isdigit c then
        (let run = takeWhile is_run_char (c # rest);
             after = dropWhile is_run_char (c # rest);
             out' = out @ map (\<lambda>d. [d]) run
         in if after \<noteq> [] \<and> hd after = CHR ''!'' then
              replace_loop (tl after)
                (pop_n (length run) out' @ [''fact('' @ run @ '')''])
            else replace_loop after out')
      else replace_loop rest (out @ [[c]]))"
  by pat_completeness auto
termination
proof (relation "measure (\<lambda>(s, out). length s)")
  show "wf (measure (\<lambda>(s, out). length s))" by simp
next
  fix c :: char and rest :: string and out :: "string list"
  show "((rest, out @ [''!'']), c # rest, out) \<in> measure (\<lambda>(s, out). length s)"
    by simp
next
  fix c :: char and rest :: string and out :: "string list"
  show "((tl rest, list_insert out (find_open out 1 (length out)) ''fact('' @ ['')'']),
          c # rest, out) \<in> measure (\<lambda>(s, out). length s)"
    by (cases rest) simp_all
next
  fix c :: char and rest :: string and out :: "string list"
    and run after :: string and out' :: "string list"
  assume "isdigit c" and "after = dropWhile is_run_char (c # rest)"
  then have "length after \<le> length rest"
    by (simp add: is_run_char_def length_dropWhile_le)
  then show "((tl after, pop_n (length run) out' @ [''fact('' @ run @ '')'']),
          c # rest, out) \<in> measure (\<lambda>(s, out). length s)"
    by (cases after) simp_all
next
  fix c :: char and rest :: string and out :: "string list"
    and run after :: string and out' :: "string list"
  assume "isdigit c" and "after = dropWhile is_run_char (c # rest)"
  then have "length after \<le> length rest"
    by (simp add: is_run_char_def length_dropWhile_le)
  then show "((after, out'), c # rest, out) \<in> measure (\<lambda>(s, out). length s)"
    by simp
next
  fix c :: char and rest :: string and out :: "string list"
  show "((rest, out @ [[c]]), c # rest, out) \<in> measure (\<lambda>(s, out). length s)"
    by simp
qed

definition replace_factorial :: "string \<Rightarrow> string" where
  "replace_factorial s = concat (replace_loop s [])"

text \<open>The canonical string: what line 217 hands to the parser.\<close>

definition canonical :: "string \<Rightarrow> string" where
  "canonical expr = replace_factorial (substitute expr)"

section \<open>Values, exceptions and outcomes\<close>

text \<open>
  The numbers an evaluation can produce. Python's \<^verbatim>\<open>int\<close> is unbounded
  (\<^typ>\<open>int\<close>), \<^verbatim>\<open>bool\<close> is a subclass of \<^verbatim>\<open>int\<close>, and
  \<^verbatim>\<open>float\<close> is modelled by \<^typ>\<open>real\<close>: rounding, overflow, infinities
  and NaN of the IEEE doubles are not modelled, and neither are the resource limits of
  the interpreter (recursion depth, memory).
\<close>

datatype pyval = IntV int | BoolV bool | FloatV real | ComplexV complex

text \<open>
  The exceptions that can leave the evaluator. A \<^verbatim>\<open>ValueError\<close> carries its
  message, since the source tells its own errors apart by message only.
\<close>

datatype exn = ValueError string | TypeError | ZeroDivisionError | AttributeError

text \<open>
  The outcome of a call: a value, an exception, or \<open>Unmodelled\<close> where the behaviour
  of the Python interpreter and its library lies outside the part described here. No
  statement below draws a conclusion from \<open>Unmodelled\<close>.
\<close>

datatype 'a outcome = Return 'a | Raise exn | Unmodelled

fun is_integral :: "pyval \<Rightarrow> bool" where
  "is_integral (IntV n) = True"
| "is_integral (BoolV b) = True"
| "is_integral (FloatV x) = False"
| "is_integral (ComplexV z) = False"

fun is_complex :: "pyval \<Rightarrow> bool" where
  "is_complex (ComplexV z) = True"
| "is_complex (IntV n) = False"
| "is_complex (BoolV b) = False"
| "is_complex (FloatV x) = False"

text \<open>The conversions of the numeric tower; each is used only on the kinds it fits.\<close>

fun int_of :: "pyval \<Rightarrow> int" where
  "int_of (IntV n) = n"
| "int_of (BoolV b) = (if b then 1 else 0)"
| "int_of (FloatV x) = \<lfloor>x\<rfloor>"
| "int_of (ComplexV z) = \<lfloor>Re z\<rfloor>"

fun real_of :: "pyval \<Rightarrow> real" where
  "real_of (IntV n) = of_int n"
| "real_of (BoolV b) = (if b then 1 else 0)"
| "real_of (FloatV x) = x"
| "real_of (ComplexV z) = Re z"

fun complex_of :: "pyval \<Rightarrow> complex" where
  "complex_of (ComplexV z) = z"
| "complex_of (IntV n) = of_int n"
| "complex_of (BoolV b) = (if b then 1 else 0)"
| "complex_of (FloatV x) = of_real x"

section \<open>The operators of the \<^verbatim>\<open>operator\<close> module\<close>

definition arith ::
  "(int \<Rightarrow> int \<Rightarrow> int) \<Rightarrow> (real \<Rightarrow> real \<Rightarrow> real) \<Rightarrow> (complex \<Rightarrow> complex \<Rightarrow> complex)
     \<Rightarrow> pyval \<Rightarrow> pyval \<Rightarrow> pyval" where
  "arith fi fr fc a b =
     (if is_complex a \<or> is_complex b then ComplexV (fc (complex_of a) (complex_of b))
      else if is_integral a \<and> is_integral b then IntV (fi (int_of a) (int_of b))
      else FloatV (fr (real_of a) (real_of b)))"

definition operator_add :: "pyval \<Rightarrow> pyval \<Rightarrow> pyval outcome" where
  "operator_add a b = Return (arith (+) (+) (+) a b)"

definition operator_sub :: "pyval \<Rightarrow> pyval \<Rightarrow> pyval outcome" where
  "operator_sub a b = Return (arith (-) (-) (-) a b)"

definition operator_mul :: "pyval \<Rightarrow> pyval \<Rightarrow> pyval outcome" where
  "operator_mul a b = Return (arith (*) (*) (*) a b)"

definition operator_truediv :: "pyval \<Rightarrow> pyval \<Rightarrow> pyval outcome" where
  "operator_truediv a b =
     (if is_complex a \<or> is_complex b then
        (if complex_of b = 0 then Raise ZeroDivisionError
         else Return (ComplexV (complex_of a / complex_of b)))
      else if real_of b = 0 then Raise ZeroDivisionError
      else Return (FloatV (real_of a / real_of b)))"

definition operator_floordiv :: "pyval \<Rightarrow> pyval \<Rightarrow> pyval outcome" where
  "operator_floordiv a b =
     (if is_complex a \<or> is_complex b then Raise TypeError
      else if real_of b = 0 then Raise ZeroDivisionError
      else if is_integral a \<and> is_integral b then Return (IntV (int_of a div int_of b))
      else Return (FloatV (of_int \<lfloor>real_of a / real_of b\<rfloor>)))"

definition operator_mod :: "pyval \<Rightarrow> pyval \<Rightarrow> pyval outcome" where
  "operator_mod a b =
     (if is_complex a \<or> is_complex b then Raise TypeError
      else if real_of b = 0 then Raise ZeroDivisionError
      else if is_integral a \<and> is_integral b then Return (IntV (int_of a mod int_of b))
      else Return (FloatV (real_of a - real_of b * of_int \<lfloor>real_of a / real_of b\<rfloor>)))"

text \<open>
  Exponentiation. An integer to a negative integer gives a float; a negative base to a
  fractional exponent gives a complex number in polar form; a complex operand is not
  modelled.
\<close>

definition int_power :: "real \<Rightarrow> int \<Rightarrow> real" where
  "int_power x n = (if 0 \<le> n then x ^ nat n else 1 / x ^ nat (- n))"

definition float_pow :: "real \<Rightarrow> real \<Rightarrow> pyval outcome" where
  "float_pow x y =
     (if x = 0 \<and> y < 0 then Raise ZeroDivisionError
      else if of_int \<lfloor>y\<rfloor> = y then Return (FloatV (int_power x \<lfloor>y\<rfloor>))
      else if x < 0 then Return (ComplexV (rcis (\<bar>x\<bar> powr y) (pi * y)))
      else Return (FloatV (x powr y)))"

definition operator_pow :: "pyval \<Rightarrow> pyval \<Rightarrow> pyval outcome" where
  "operator_pow a b =
     (if is_complex a \<or> is_complex b then Unmodelled
      else if is_integral a \<and> is_integral b \<and> 0 \<le> int_of b then
        Return (IntV (int_of a ^ nat (int_of b)))
      else float_pow (real_of a) (real_of b))"

definition operator_pos :: "pyval \<Rightarrow> pyval outcome" where
  "operator_pos a = (case a of BoolV b \<Rightarrow> Return (IntV (int_of a)) | _ \<Rightarrow> Return a)"

definition operator_neg :: "pyval \<Rightarrow> pyval outcome" where
  "operator_neg a =
     (case a of
        IntV n \<Rightarrow> Return (IntV (- n))
      | BoolV b \<Rightarrow> Return (IntV (- int_of a))
      | FloatV x \<Rightarrow> Return (FloatV (- x))
      | ComplexV z \<Rightarrow> Return (ComplexV (- z)))"

section \<open>The syntax trees of the \<^verbatim>\<open>ast\<close> module\<close>

text \<open>
  The value of a \<^verbatim>\<open>Constant\<close> node, the operator classes and the node classes
  of Python's \<^verbatim>\<open>ast\<close> module. \<open>Pow_op\<close> and \<open>Not_op\<close> are the classes
  \<^verbatim>\<open>Pow\<close> and \<^verbatim>\<open>Not\<close>; \<open>Other\<close> stands for every node class that is not
  listed (boolean operations, lambdas, conditionals, lists, subscripts and so on).
\<close>

datatype const =
    CInt int | CFloat real | CComplex complex | CBool bool
  | CStr string | CBytes string | CNone | CEllipsis

datatype operator =
    Add | Sub | Mult | MatMult | Div | Mod | Pow_op
  | LShift | RShift | BitOr | BitXor | BitAnd | FloorDiv

datatype unaryop = Invert | Not_op | UAdd | USub

datatype cmpop = Eq | NotEq | Lt | LtE | Gt | GtE | Is | IsNot | In | NotIn

datatype node =
    Expression node
  | Constant const
  | BinOp node operator node
  | UnaryOp unaryop node
  | Call node "node list" "(string \<times> node) list"
  | Name string
  | Tuple "node list"
  | Compare node "cmpop list" "node list"
  | Other

section \<open>The functions of the host library\<close>

text \<open>
  A callable takes the positional arguments and the keyword arguments, the latter in
  the order in which the dictionary of line 142 was filled; a later entry for the same
  key replaces an earlier one.
\<close>

type_synonym callable = "pyval list \<Rightarrow> (string \<times> pyval) list \<Rightarrow> pyval outcome"

definition bind :: "'a outcome \<Rightarrow> ('a \<Rightarrow> 'b outcome) \<Rightarrow> 'b outcome" where
  "bind m f = (case m of Return x \<Rightarrow> f x | Raise e \<Rightarrow> Raise e | Unmodelled \<Rightarrow> Unmodelled)"

text \<open>
  A function of the \<^verbatim>\<open>math\<close> module with one argument: it takes no keywords and
  converts its argument to a float, which a complex number refuses.
\<close>

definition math_unary :: "(real \<Rightarrow> pyval outcome) \<Rightarrow> callable" where
  "math_unary f args kwargs =
     (if kwargs \<noteq> [] then Raise TypeError
      else case args of
        [v] \<Rightarrow> (if is_complex v then Raise TypeError else f (real_of v))
      | _ \<Rightarrow> Raise TypeError)"

definition domain_error :: exn where
  "domain_error = ValueError ''math domain error''"

definition math_sin :: callable where
  "math_sin = math_unary (\<lambda>x. Return (FloatV (sin x)))"

definition math_cos :: callable where
  "math_cos = math_unary (\<lambda>x. Return (FloatV (cos x)))"

definition math_tan :: callable where
  "math_tan = math_unary (\<lambda>x. Return (FloatV (tan x)))"

definition math_asin :: callable where
  "math_asin = math_unary (\<lambda>x.
     if x < - 1 \<or> 1 < x then Raise domain_error else Return (FloatV (arcsin x)))"

definition math_acos :: callable where
  "math_acos = math_unary (\<lambda>x.
     if x < - 1 \<or> 1 < x then Raise domain_error else Return (FloatV (arccos x)))"

definition math_atan :: callable where
  "math_atan = math_unary (\<lambda>x. Return (FloatV (arctan x)))"

definition math_sqrt :: callable where
  "math_sqrt = math_unary (\<lambda>x.
     if x < 0 then Raise domain_error else Return (FloatV (sqrt x)))"

definition math_floor :: callable where
  "math_floor = math_unary (\<lambda>x. Return (IntV \<lfloor>x\<rfloor>))"

definition math_ceil :: callable where
  "math_ceil = math_unary (\<lambda>x. Return (IntV \<lceil>x\<rceil>))"

definition math_radians :: "pyval \<Rightarrow> pyval outcome" where
  "math_radians v =
     (if is_complex v then Raise TypeError else Return (FloatV (real_of v * (pi / 180))))"

definition math_degrees :: "pyval \<Rightarrow> pyval outcome" where
  "math_degrees v =
     (if is_complex v then Raise TypeError else Return (FloatV (real_of v * (180 / pi))))"

text \<open>\<^verbatim>\<open>math.log(x)\<close> and \<^verbatim>\<open>math.log(x, base)\<close>.\<close>

definition log_helper :: "pyval \<Rightarrow> real outcome" where
  "log_helper v =
     (if is_complex v then Raise TypeError
      else if real_of v \<le> 0 then Raise domain_error
      else Return (ln (real_of v)))"

definition math_log :: callable where
  "math_log args kwargs =
     (if kwargs \<noteq> [] then Raise TypeError
      else case args of
        [v] \<Rightarrow> bind (log_helper v) (\<lambda>num. Return (FloatV num))
      | [v, b] \<Rightarrow>
          bind (log_helper v) (\<lambda>num.
          bind (log_helper b) (\<lambda>den.
            if den = 0 then Raise ZeroDivisionError else Return (FloatV (num / den))))
      | _ \<Rightarrow> Raise TypeError)"

text \<open>
  \<^verbatim>\<open>math.factorial\<close>: a float argument is accepted or refused depending on the
  version of the interpreter and is not modelled.
\<close>

definition math_factorial :: callable where
  "math_factorial args kwargs =
     (if kwargs \<noteq> [] then Raise TypeError
      else case args of
        [v] \<Rightarrow>
          (case v of
             FloatV x \<Rightarrow> Unmodelled
           | ComplexV z \<Rightarrow> Raise TypeError
           | _ \<Rightarrow>
               if int_of v < 0
               then Raise (ValueError ''factorial() not defined for negative values'')
               else Return (IntV (fact (nat (int_of v)))))
      | _ \<Rightarrow> Raise TypeError)"

definition builtin_abs :: callable where
  "builtin_abs args kwargs =
     (if kwargs \<noteq> [] then Raise TypeError
      else case args of
        [v] \<Rightarrow>
          (case v of
             IntV n \<Rightarrow> Return (IntV \<bar>n\<bar>)
           | BoolV b \<Rightarrow> Return (IntV (int_of v))
           | FloatV x \<Rightarrow> Return (FloatV \<bar>x\<bar>)
           | ComplexV z \<Rightarrow> Return (FloatV (cmod z)))
      | _ \<Rightarrow> Raise TypeError)"

text \<open>
  The built-in \<^verbatim>\<open>pow\<close>: with two positional arguments it is the operator; the
  modular form with three arguments and the call with keywords are not modelled.
\<close>

definition builtin_pow :: callable where
  "builtin_pow args kwargs =
     (if kwargs \<noteq> [] then Unmodelled
      else case args of
        [a, b] \<Rightarrow> operator_pow a b
      | [a, b, c] \<Rightarrow> Unmodelled
      | _ \<Rightarrow> Raise TypeError)"

section \<open>The tables of \<^verbatim>\<open>SafeEvaluator.__init__\<close>\<close>

record evaluator =
  vars :: "string \<rightharpoonup> pyval"
  deg_mode :: bool

definition SafeEvaluator :: "(string \<rightharpoonup> pyval) \<Rightarrow> bool \<Rightarrow> evaluator" where
  "SafeEvaluator variables deg = \<lparr>vars = variables, deg_mode = deg\<rparr>"

definition bin_ops :: "operator \<rightharpoonup> (pyval \<Rightarrow> pyval \<Rightarrow> pyval outcome)" where
  "bin_ops = map_of
     [(Add, operator_add), (Sub, operator_sub), (Mult, operator_mul),
      (Div, operator_truediv), (FloorDiv, operator_floordiv), (Mod, operator_mod),
      (Pow_op, operator_pow)]"

definition unary_ops :: "unaryop \<rightharpoonup> (pyval \<Rightarrow> pyval outcome)" where
  "unary_ops = map_of [(UAdd, operator_pos), (USub, operator_neg)]"

text \<open>
  A Python \<^verbatim>\<open>lambda x: ...\<close> called with the evaluated arguments: \<open>x\<close> is bound
  by the one positional argument or by the keyword \<open>x\<close>, and anything else is a
  \<^verbatim>\<open>TypeError\<close>.
\<close>

definition lambda_x :: "(pyval \<Rightarrow> pyval outcome) \<Rightarrow> callable" where
  "lambda_x body args kwargs =
     (case args of
        [] \<Rightarrow>
          (if set (map fst kwargs) = {''x''} then
             (case map_of (rev kwargs) ''x'' of
                Some v \<Rightarrow> body v
              | None \<Rightarrow> Raise TypeError)
           else Raise TypeError)
      | [v] \<Rightarrow> (if kwargs = [] then body v else Raise TypeError)
      | _ \<Rightarrow> Raise TypeError)"

text \<open>Lines 86 to 89.\<close>

definition wrap_trig :: "bool \<Rightarrow> callable \<Rightarrow> callable" where
  "wrap_trig deg f =
     (if deg then lambda_x (\<lambda>x. bind (math_radians x) (\<lambda>r. f [r] [])) else f)"

definition wrap_atrig :: "bool \<Rightarrow> callable \<Rightarrow> callable" where
  "wrap_atrig deg f =
     (if deg then lambda_x (\<lambda>x. bind (f [x] []) math_degrees) else f)"

text \<open>Line 98: \<^verbatim>\<open>lambda x, b=10: math.log(x, b)\<close>.\<close>

definition log_lambda :: callable where
  "log_lambda args kwargs =
     (let keys = set (map fst kwargs);
          b = (case map_of (rev kwargs) ''b'' of None \<Rightarrow> IntV 10 | Some v \<Rightarrow> v)
      in case args of
        [] \<Rightarrow>
          (if keys \<subseteq> {''x'', ''b''} then
             (case map_of (rev kwargs) ''x'' of
                Some x \<Rightarrow> math_log [x, b] []
              | None \<Rightarrow> Raise TypeError)
           else Raise TypeError)
      | [x] \<Rightarrow> (if keys \<subseteq> {''b''} then math_log [x, b] [] else Raise TypeError)
      | [x, b'] \<Rightarrow> (if kwargs = [] then math_log [x, b'] [] else Raise TypeError)
      | _ \<Rightarrow> Raise TypeError)"

definition funcs :: "bool \<Rightarrow> string \<rightharpoonup> callable" where
  "funcs deg = map_of
     [(''sin'', wrap_trig deg math_sin),
      (''cos'', wrap_trig deg math_cos),
      (''tan'', wrap_trig deg math_tan),
      (''asin'', wrap_atrig deg math_asin),
      (''acos'', wrap_atrig deg math_acos),
      (''atan'', wrap_atrig deg math_atan),
      (''log'', log_lambda),
      (''ln'', math_log),
      (''sqrt'', math_sqrt),
      (''abs'', builtin_abs),
      (''floor'', math_floor),
      (''ceil'', math_ceil),
      (''fact'', math_factorial),
      (''pow'', builtin_pow)]"

definition consts_table :: "string \<rightharpoonup> pyval" where
  "consts_table = map_of [(''pi'', FloatV pi), (''e'', FloatV (exp 1))]"

section \<open>\<^verbatim>\<open>SafeEvaluator.visit\<close>\<close>

text \<open>
  The chain of \<^verbatim>\<open>isinstance\<close> tests of lines 112 to 154, for an interpreter in
  which \<^verbatim>\<open>ast.Num\<close> exists (Python 3.8 to 3.13): there a \<^verbatim>\<open>Constant\<close> node is
  an instance of \<^verbatim>\<open>ast.Num\<close> exactly when its value is an int, float or complex
  and not a bool, so line 115 returns these, and line 117 lets a bool through as an
  \<^verbatim>\<open>int\<close>. A node of any other class reaches line 150, where the module attribute
  \<^verbatim>\<open>ast.Paren\<close> does not exist in any version of Python: looking it up raises
  \<^verbatim>\<open>AttributeError\<close>, so that neither the tuple branch of line 152 nor the
  \<^verbatim>\<open>ValueError\<close> of line 154 is ever reached.
\<close>

fun visit :: "evaluator \<Rightarrow> node \<Rightarrow> pyval outcome"
  and visit_args :: "evaluator \<Rightarrow> node list \<Rightarrow> pyval list outcome"
  and visit_keywords :: "evaluator \<Rightarrow> (string \<times> node) list \<Rightarrow> (string \<times> pyval) list outcome"
where
  "visit ev (Expression body) = visit ev body"
| "visit ev (Constant c) =
     (case c of
        CInt n \<Rightarrow> Return (IntV n)
      | CFloat x \<Rightarrow> Return (FloatV x)
      | CComplex z \<Rightarrow> Return (ComplexV z)
      | CBool b \<Rightarrow> Return (BoolV b)
      | _ \<Rightarrow> Raise (ValueError ''Only numeric constants allowed.''))"
| "visit ev (BinOp left op right) =
     (case bin_ops op of
        None \<Rightarrow> Raise (ValueError ''Unsupported operator.'')
      | Some f \<Rightarrow>
          bind (visit ev left) (\<lambda>l.
          bind (visit ev right) (\<lambda>r. f l r)))"
| "visit ev (UnaryOp op operand) =
     (case unary_ops op of
        None \<Rightarrow> Raise (ValueError ''Unsupported unary operator.'')
      | Some f \<Rightarrow> bind (visit ev operand) f)"
| "visit ev (Call func args keywords) =
     (case func of
        Name name \<Rightarrow>
          (case funcs (deg_mode ev) name of
             None \<Rightarrow> Raise (ValueError (''Unknown function: '' @ name))
           | Some fn \<Rightarrow>
               bind (visit_args ev args) (\<lambda>vs.
               bind (visit_keywords ev keywords) (\<lambda>kws. fn vs kws)))
      | _ \<Rightarrow> Raise (ValueError ''Only simple function calls allowed.''))"
| "visit ev (Name ident) =
     (case consts_table ident of
        Some v \<Rightarrow> Return v
      | None \<Rightarrow>
          (case vars ev ident of
             Some v \<Rightarrow> Return v
           | None \<Rightarrow> Raise (ValueError (''Unknown identifier: '' @ ident))))"
| "visit ev (Tuple elts) = Raise AttributeError"
| "visit ev (Compare left ops comparators) = Raise AttributeError"
| "visit ev Other = Raise AttributeError"
| "visit_args ev [] = Return []"
| "visit_args ev (a # as) =
     bind (visit ev a) (\<lambda>v. bind (visit_args ev as) (\<lambda>vs. Return (v # vs)))"
| "visit_keywords ev [] = Return []"
| "visit_keywords ev ((k, a) # kws) =
     bind (visit ev a) (\<lambda>v. bind (visit_keywords ev kws) (\<lambda>vs. Return ((k, v) # vs)))"

section \<open>The host parser \<^verbatim>\<open>ast.parse(expr, mode="eval")\<close>\<close>

text \<open>
  Line 217 calls the parser of the Python interpreter, which is not part of the
  calculator. It is described here on a fragment of Python's expression grammar: decimal
  integers and decimal fractions, identifiers, \<^verbatim>\<open>True\<close>, \<^verbatim>\<open>False\<close> and
  \<^verbatim>\<open>None\<close>, plain string literals, the arithmetic and comparison operators,
  parentheses, tuples and calls with positional and keyword arguments. On a text of this fragment the functions below
  give the tree Python builds, or a syntax error where Python raises
  \<^verbatim>\<open>SyntaxError\<close>; on any other text they answer \<open>Unmodelled\<close>. The first problem
  met from the left decides, as in Python's tokenizer.
\<close>

datatype token =
    TConst const | TName string
  | TPlus | TMinus | TStar | TDoubleStar | TSlash | TDoubleSlash | TPercent
  | TLPar | TRPar | TComma | TEqual | TCmp cmpop

datatype lexed = Tokens "token list" | LexError | LexUnmodelled

definition is_quote :: "char \<Rightarrow> bool" where
  "is_quote c \<longleftrightarrow> c = CHR 0x27 \<or> c = CHR 0x22"

definition ascii_digit :: "char \<Rightarrow> bool" where
  "ascii_digit c \<longleftrightarrow> (let n = (of_char c :: nat) in 48 \<le> n \<and> n \<le> 57)"

definition ident_start :: "char \<Rightarrow> bool" where
  "ident_start c \<longleftrightarrow>
     (let n = (of_char c :: nat)
      in (65 \<le> n \<and> n \<le> 90) \<or> (97 \<le> n \<and> n \<le> 122) \<or> n = 95)"

definition ident_char :: "char \<Rightarrow> bool" where
  "ident_char c \<longleftrightarrow> ident_start c \<or> ascii_digit c"

definition digits_value :: "string \<Rightarrow> nat" where
  "digits_value ds = foldl (\<lambda>n d. 10 * n + (of_char d - 48)) 0 ds"

definition decimal_value :: "string \<Rightarrow> string \<Rightarrow> real" where
  "decimal_value ds fs = real (digits_value ds) + real (digits_value fs) / 10 ^ length fs"

definition py_keywords :: "string list" where
  "py_keywords =
     [''and'', ''as'', ''assert'', ''async'', ''await'', ''break'', ''class'',
      ''continue'', ''def'', ''del'', ''elif'', ''else'', ''except'', ''finally'',
      ''for'', ''from'', ''global'', ''if'', ''import'', ''in'', ''is'', ''lambda'',
      ''nonlocal'', ''not'', ''or'', ''pass'', ''raise'', ''return'', ''try'', ''while'',
      ''with'', ''yield'']"

definition cons_token :: "token \<Rightarrow> lexed \<Rightarrow> lexed" where
  "cons_token t r =
     (case r of Tokens ts \<Rightarrow> Tokens (t # ts) | LexError \<Rightarrow> LexError
      | LexUnmodelled \<Rightarrow> LexUnmodelled)"

definition name_token :: "string \<Rightarrow> lexed \<Rightarrow> lexed" where
  "name_token name r =
     (if name = ''True'' then cons_token (TConst (CBool True)) r
      else if name = ''False'' then cons_token (TConst (CBool False)) r
      else if name = ''None'' then cons_token (TConst CNone) r
      else if name \<in> set py_keywords then LexUnmodelled
      else cons_token (TName name) r)"

text \<open>
  A number directly followed by a letter or an underscore (an exponent, a radix
  prefix, the suffix \<^verbatim>\<open>j\<close>, a keyword) is left unmodelled; so are comments,
  brackets, and every character outside a string that is not ASCII. A string literal is
  modelled when it stands between two quotes of one kind, has no backslash and no line
  break in it, no prefix before it and no quote directly after it. An integer with a
  leading zero that is not zero, and a \<^verbatim>\<open>!\<close> that does not begin \<^verbatim>\<open>!=\<close>, are
  errors of the tokenizer.
\<close>

function lex_tokens :: "string \<Rightarrow> lexed" where
  "lex_tokens [] = Tokens []"
| "lex_tokens (c # rest) =
     (if c = CHR '' '' \<or> c = CHR 0x09 then lex_tokens rest
      else if ascii_digit c then
        (let ds = takeWhile ascii_digit (c # rest);
             r1 = dropWhile ascii_digit (c # rest)
         in if r1 \<noteq> [] \<and> hd r1 = CHR ''.'' then
              (let fs = takeWhile ascii_digit (tl r1);
                   r2 = dropWhile ascii_digit (tl r1)
               in if r2 \<noteq> [] \<and> ident_char (hd r2) then LexUnmodelled
                  else cons_token (TConst (CFloat (decimal_value ds fs))) (lex_tokens r2))
            else if r1 \<noteq> [] \<and> ident_char (hd r1) then LexUnmodelled
            else if 1 < length ds \<and> hd ds = CHR ''0'' \<and> ds \<noteq> replicate (length ds) (CHR ''0'')
              then LexError
            else cons_token (TConst (CInt (int (digits_value ds)))) (lex_tokens r1))
      else if c = CHR ''.'' then
        (if rest \<noteq> [] \<and> ascii_digit (hd rest) then
           (let fs = takeWhile ascii_digit rest;
                r2 = dropWhile ascii_digit rest
            in if r2 \<noteq> [] \<and> ident_char (hd r2) then LexUnmodelled
               else cons_token (TConst (CFloat (decimal_value [] fs))) (lex_tokens r2))
         else LexUnmodelled)
      else if ident_start c then
        (let name = takeWhile ident_char (c # rest);
             r1 = dropWhile ident_char (c # rest)
         in if r1 \<noteq> [] \<and> is_quote (hd r1) then LexUnmodelled
            else name_token name (lex_tokens r1))
      else if is_quote c then
        (let body = takeWhile (\<lambda>d. d \<noteq> c) rest;
             r1 = dropWhile (\<lambda>d. d \<noteq> c) rest
         in if r1 = [] then LexUnmodelled
            else if CHR 0x5C \<in> set body \<or> CHR 0x0A \<in> set body \<or> CHR 0x0D \<in> set body
              then LexUnmodelled
            else if tl r1 \<noteq> [] \<and> is_quote (hd (tl r1)) then LexUnmodelled
            else cons_token (TConst (CStr body)) (lex_tokens (tl r1)))
      else if c = CHR ''+'' then cons_token TPlus (lex_tokens rest)
      else if c = CHR ''-'' then cons_token TMinus (lex_tokens rest)
      else if c = CHR ''*'' then
        (if rest \<noteq> [] \<and> hd rest = CHR ''*'' then cons_token TDoubleStar (lex_tokens (tl rest))
         else cons_token TStar (lex_tokens rest))
      else if c = CHR ''/'' then
        (if rest \<noteq> [] \<and> hd rest = CHR ''/'' then cons_token TDoubleSlash (lex_tokens (tl rest))
         else cons_token TSlash (lex_tokens rest))
      else if c = CHR ''%'' then cons_token TPercent (lex_tokens rest)
      else if c = CHR ''('' then cons_token TLPar (lex_tokens rest)
      else if c = CHR '')'' then cons_token TRPar (lex_tokens rest)
      else if c = CHR '','' then cons_token TComma (lex_tokens rest)
      else if c = CHR ''='' then
        (if rest \<noteq> [] \<and> hd rest = CHR ''='' then cons_token (TCmp Eq) (lex_tokens (tl rest))
         else cons_token TEqual (lex_tokens rest))
      else if c = CHR ''<'' then
        (if rest \<noteq> [] \<and> hd rest = CHR ''='' then cons_token (TCmp LtE) (lex_tokens (tl rest))
         else if rest \<noteq> [] \<and> (hd rest = CHR ''<'' \<or> hd rest = CHR ''>'') then LexUnmodelled
         else cons_token (TCmp Lt) (lex_tokens rest))
      else if c = CHR ''>'' then
        (if rest \<noteq> [] \<and> hd rest = CHR ''='' then cons_token (TCmp GtE) (lex_tokens (tl rest))
         else if rest \<noteq> [] \<and> hd rest = CHR ''>'' then LexUnmodelled
         else cons_token (TCmp Gt) (lex_tokens rest))
      else if c = CHR ''!'' then
        (if rest \<noteq> [] \<and> hd rest = CHR ''='' then cons_token (TCmp NotEq) (lex_tokens (tl rest))
         else LexError)
      else LexUnmodelled)"
  by pat_completeness auto
termination
proof -
  have drop_le: "length (dropWhile P xs) \<le> length xs" for P and xs :: string
    by (rule length_dropWhile_le)
  have drop_tl_le: "length (dropWhile P (tl (dropWhile Q xs))) \<le> length xs"
    for P Q and xs :: string
  proof -
    have "length (dropWhile P (tl (dropWhile Q xs))) \<le> length (tl (dropWhile Q xs))"
      by (rule length_dropWhile_le)
    also have "\<dots> \<le> length (dropWhile Q xs)" by simp
    also have "\<dots> \<le> length xs" by (rule length_dropWhile_le)
    finally show ?thesis .
  qed
  have tl_less: "xs \<noteq> [] \<Longrightarrow> length (tl xs) < Suc (length xs)" for xs :: string
    by simp
  have tl_drop_less: "length (tl (dropWhile P xs)) < Suc (length xs)" for P and xs :: string
  proof -
    have "length (tl (dropWhile P xs)) \<le> length (dropWhile P xs)" by simp
    also have "\<dots> \<le> length xs" by (rule length_dropWhile_le)
    finally show ?thesis by simp
  qed
  show ?thesis
    by (relation "measure length")
       (use drop_le drop_tl_le tl_less tl_drop_less in
         \<open>auto simp: ident_char_def less_Suc_eq_le\<close>)
qed

text \<open>
  The grammar, by recursive descent. The parser takes a bound on the depth of its
  calls as first argument; where the bound is used up the answer is \<open>PUnmodelled\<close>.
  A \<^verbatim>\<open>*\<close> or \<^verbatim>\<open>**\<close> where an operand is expected (a starred argument), a
  repeated keyword and two string literals in a row are left unmodelled.
\<close>

datatype 'a parsed = POk 'a "token list" | PError | PUnmodelled

definition pbind :: "'a parsed \<Rightarrow> ('a \<Rightarrow> token list \<Rightarrow> 'b parsed) \<Rightarrow> 'b parsed" where
  "pbind m f = (case m of POk x ts \<Rightarrow> f x ts | PError \<Rightarrow> PError | PUnmodelled \<Rightarrow> PUnmodelled)"

text \<open>Tests on the next token.\<close>

definition starts :: "token \<Rightarrow> token list \<Rightarrow> bool" where
  "starts t ts \<longleftrightarrow> ts \<noteq> [] \<and> hd ts = t"

fun cmp_start :: "token list \<Rightarrow> cmpop option" where
  "cmp_start (TCmp op # rest) = Some op"
| "cmp_start ts = None"

fun keyword_start :: "token list \<Rightarrow> (string \<times> token list) option" where
  "keyword_start (TName k # TEqual # rest) = Some (k, rest)"
| "keyword_start ts = None"

definition is_str_token :: "token \<Rightarrow> bool" where
  "is_str_token t = (case t of TConst (CStr a) \<Rightarrow> True | _ \<Rightarrow> False)"

definition simple_atom :: "token list \<Rightarrow> node parsed" where
  "simple_atom ts =
     (case ts of
        [] \<Rightarrow> PError
      | t # rest \<Rightarrow>
          (case t of
             TConst c \<Rightarrow>
               (if is_str_token t \<and> rest \<noteq> [] \<and> is_str_token (hd rest) then PUnmodelled
                else POk (Constant c) rest)
           | TName x \<Rightarrow> POk (Name x) rest
           | TStar \<Rightarrow> PUnmodelled
           | TDoubleStar \<Rightarrow> PUnmodelled
           | _ \<Rightarrow> PError))"

text \<open>
  The nonterminals, with what has been read of them so far: the left operand of a
  chain of operators, the callee and the arguments of a call, the elements of a tuple.
\<close>

datatype nonterm =
    Expr
  | ComparisonRest node "cmpop list" "node list"
  | Sum
  | SumRest node
  | Term
  | TermRest node
  | Factor
  | Power
  | Trailers node
  | Arguments node "node list" "(string \<times> node) list"
  | ArgumentsSep node "node list" "(string \<times> node) list"
  | Atom
  | TupleRest "node list"
  | TopRest "node list"
  | Top

fun parse :: "nat \<Rightarrow> nonterm \<Rightarrow> token list \<Rightarrow> node parsed" where
  "parse 0 nt ts = PUnmodelled"
| "parse (Suc n) Expr ts =
     pbind (parse n Sum ts) (\<lambda>l rest. parse n (ComparisonRest l [] []) rest)"
| "parse (Suc n) (ComparisonRest l ops comps) ts =
     (case cmp_start ts of
        Some op \<Rightarrow>
          pbind (parse n Sum (tl ts)) (\<lambda>r rest.
            parse n (ComparisonRest l (ops @ [op]) (comps @ [r])) rest)
      | None \<Rightarrow> POk (if ops = [] then l else Compare l ops comps) ts)"
| "parse (Suc n) Sum ts = pbind (parse n Term ts) (\<lambda>l rest. parse n (SumRest l) rest)"
| "parse (Suc n) (SumRest l) ts =
     (if starts TPlus ts then
        pbind (parse n Term (tl ts)) (\<lambda>r rest. parse n (SumRest (BinOp l Add r)) rest)
      else if starts TMinus ts then
        pbind (parse n Term (tl ts)) (\<lambda>r rest. parse n (SumRest (BinOp l Sub r)) rest)
      else POk l ts)"
| "parse (Suc n) Term ts = pbind (parse n Factor ts) (\<lambda>l rest. parse n (TermRest l) rest)"
| "parse (Suc n) (TermRest l) ts =
     (if starts TStar ts then
        pbind (parse n Factor (tl ts)) (\<lambda>r rest. parse n (TermRest (BinOp l Mult r)) rest)
      else if starts TSlash ts then
        pbind (parse n Factor (tl ts)) (\<lambda>r rest. parse n (TermRest (BinOp l Div r)) rest)
      else if starts TDoubleSlash ts then
        pbind (parse n Factor (tl ts)) (\<lambda>r rest.
          parse n (TermRest (BinOp l FloorDiv r)) rest)
      else if starts TPercent ts then
        pbind (parse n Factor (tl ts)) (\<lambda>r rest. parse n (TermRest (BinOp l Mod r)) rest)
      else POk l ts)"
| "parse (Suc n) Factor ts =
     (if starts TPlus ts then
        pbind (parse n Factor (tl ts)) (\<lambda>e rest. POk (UnaryOp UAdd e) rest)
      else if starts TMinus ts then
        pbind (parse n Factor (tl ts)) (\<lambda>e rest. POk (UnaryOp USub e) rest)
      else parse n Power ts)"
| "parse (Suc n) Power ts =
     pbind (pbind (parse n Atom ts) (\<lambda>a rest. parse n (Trailers a) rest)) (\<lambda>b rest.
       if starts TDoubleStar rest then
         pbind (parse n Factor (tl rest)) (\<lambda>e rest'. POk (BinOp b Pow_op e) rest')
       else POk b rest)"
| "parse (Suc n) (Trailers a) ts =
     (if starts TLPar ts then
        pbind (parse n (Arguments a [] []) (tl ts)) (\<lambda>c rest. parse n (Trailers c) rest)
      else POk a ts)"
| "parse (Suc n) (Arguments a args kws) ts =
     (if starts TRPar ts then POk (Call a args kws) (tl ts)
      else case keyword_start ts of
        Some kr \<Rightarrow>
          (if fst kr \<in> set (map fst kws) then PUnmodelled
           else pbind (parse n Expr (snd kr)) (\<lambda>v rest.
                  parse n (ArgumentsSep a args (kws @ [(fst kr, v)])) rest))
      | None \<Rightarrow>
          pbind (parse n Expr ts) (\<lambda>v rest.
            if kws \<noteq> [] then PError else parse n (ArgumentsSep a (args @ [v]) kws) rest))"
| "parse (Suc n) (ArgumentsSep a args kws) ts =
     (if starts TComma ts then parse n (Arguments a args kws) (tl ts)
      else if starts TRPar ts then POk (Call a args kws) (tl ts)
      else PError)"
| "parse (Suc n) Atom ts =
     (if starts TLPar ts then
        (if starts TRPar (tl ts) then POk (Tuple []) (tl (tl ts))
         else pbind (parse n Expr (tl ts)) (\<lambda>e rest.
                if starts TRPar rest then POk e (tl rest)
                else if starts TComma rest then parse n (TupleRest [e]) (tl rest)
                else PError))
      else simple_atom ts)"
| "parse (Suc n) (TupleRest elts) ts =
     (if starts TRPar ts then POk (Tuple elts) (tl ts)
      else pbind (parse n Expr ts) (\<lambda>e rest.
             if starts TRPar rest then POk (Tuple (elts @ [e])) (tl rest)
             else if starts TComma rest then parse n (TupleRest (elts @ [e])) (tl rest)
             else PError))"
| "parse (Suc n) (TopRest elts) ts =
     (if ts = [] then POk (Tuple elts) []
      else pbind (parse n Expr ts) (\<lambda>e rest.
             if rest = [] then POk (Tuple (elts @ [e])) []
             else if starts TComma rest then parse n (TopRest (elts @ [e])) (tl rest)
             else PError))"
| "parse (Suc n) Top ts =
     pbind (parse n Expr ts) (\<lambda>e rest.
       if rest = [] then POk e []
       else if starts TComma rest then parse n (TopRest [e]) (tl rest)
       else PError)"

datatype parse_result = Parsed node | SyntaxError | ParseUnmodelled

text \<open>
  \<^verbatim>\<open>ast.parse\<close> itself. A NUL character makes some versions of Python raise another
  exception than \<^verbatim>\<open>SyntaxError\<close>, and leading blanks are an indentation: both are left
  unmodelled.
\<close>

definition ast_parse :: "string \<Rightarrow> parse_result" where
  "ast_parse s =
     (if CHR 0x00 \<in> set s then ParseUnmodelled
      else if s \<noteq> [] \<and> (hd s = CHR '' '' \<or> hd s = CHR 0x09) then ParseUnmodelled
      else case lex_tokens s of
        LexError \<Rightarrow> SyntaxError
      | LexUnmodelled \<Rightarrow> ParseUnmodelled
      | Tokens ts \<Rightarrow>
          (case parse (16 * length ts + 16) Top ts of
             POk e rest \<Rightarrow> Parsed (Expression e)
           | PError \<Rightarrow> SyntaxError
           | PUnmodelled \<Rightarrow> ParseUnmodelled))"

section \<open>\<^verbatim>\<open>SafeEvaluator.eval\<close> and \<^verbatim>\<open>CalcApp._evaluate_silent\<close>\<close>

text \<open>Lines 156 to 221.\<close>

definition SafeEvaluator_eval :: "evaluator \<Rightarrow> string \<Rightarrow> pyval outcome" where
  "SafeEvaluator_eval ev expr =
     (case ast_parse (canonical expr) of
        SyntaxError \<Rightarrow> Raise (ValueError ''Syntax error.'')
      | Parsed node \<Rightarrow> visit ev node
      | ParseUnmodelled \<Rightarrow> Unmodelled)"

text \<open>
  The state of the application: the text of the entry widget, the angle mode, the
  memory register, the last answer, the undo and redo stacks and the history list.
\<close>

record calc_app =
  entry :: string
  app_deg_mode :: bool
  memory :: real
  ans :: real
  undo_stack :: "string list"
  redo_stack :: "string list"
  hist :: "string list"

text \<open>Lines 232 to 236, with the entry widget and the history list empty.\<close>

definition CalcApp_init :: calc_app where
  "CalcApp_init =
     \<lparr>entry = [], app_deg_mode = True, memory = 0, ans = 0,
      undo_stack = [], redo_stack = [], hist = []\<rparr>"

text \<open>
  Lines 420 to 430. The method assigns no attribute, so it returns the state it was
  given together with its outcome.
\<close>

definition evaluate_silent :: "calc_app \<Rightarrow> real outcome \<times> calc_app" where
  "evaluate_silent app =
     (let expr = strip (entry app)
      in if expr = [] then (Return 0, app)
         else
           let variables = [''Ans'' \<mapsto> FloatV (ans app)];
               ev = SafeEvaluator variables (app_deg_mode app)
           in (bind (SafeEvaluator_eval ev expr) (\<lambda>val.
                 if is_complex val then Raise (ValueError ''Complex results not supported.'')
                 else Return (real_of val)),
               app))"

section \<open>The substitution as the specification words it\<close>

text \<open>
  The specification describes the first two steps of the preprocessor as one textual
  substitution, character for character. This is that description, to be compared
  with \<^const>\<open>substitute\<close>.
\<close>

definition spec_substitute :: "string \<Rightarrow> string" where
  "spec_substitute s =
     concat (map (\<lambda>c. if c = times_glyph then ''*''
                        else if c = div_glyph then ''/''
                        else if c = CHR ''^'' then ''**''
                        else if c = CHR ''%'' then ''/100''
                        else [c]) s)"

section \<open>Where the scan can be cut\<close>

text \<open>
  The loop of \<^verbatim>\<open>_replace_factorial\<close> reads one character, a run of digits and
  points, or a \<^verbatim>\<open>)\<close> with the \<^verbatim>\<open>!\<close> after it. It therefore arrives at the
  boundary between \<open>pre\<close> and \<open>s\<close> at the top of an iteration when \<open>pre\<close> does not end
  in a character of a run, nor in a \<^verbatim>\<open>)\<close> that a \<^verbatim>\<open>!\<close> at the head of \<open>s\<close> follows.
\<close>

definition cut_ok :: "string \<Rightarrow> string \<Rightarrow> bool" where
  "cut_ok pre s \<longleftrightarrow>
     pre = [] \<or>
     (\<not> is_run_char (last pre) \<and> \<not> (last pre = CHR '')'' \<and> s \<noteq> [] \<and> hd s = CHR ''!''))"

section \<open>Running the entry point\<close>

text \<open>
  How a call of \<^verbatim>\<open>_evaluate_silent\<close> on a non-blank entry unfolds: strip, rewrite,
  parse, visit, convert.
\<close>

lemma strip_blank:
  assumes "\<forall>c \<in> set s. isspace c"
  shows "strip s = []"
proof -
  from assms have d: "dropWhile isspace s = []" by (induction s) simp_all
  show ?thesis unfolding strip_def d by simp
qed

lemma evaluate_silent_returns:
  assumes "strip (entry app) = e" and "e \<noteq> []" and "canonical e = c"
    and "ast_parse c = Parsed t"
    and "visit (SafeEvaluator [''Ans'' \<mapsto> FloatV (ans app)] (app_deg_mode app)) t = Return v"
    and "\<not> is_complex v"
  shows "evaluate_silent app = (Return (real_of v), app)"
  using assms by (simp add: evaluate_silent_def SafeEvaluator_eval_def bind_def Let_def)

lemma evaluate_silent_raises:
  assumes "strip (entry app) = e" and "e \<noteq> []" and "canonical e = c"
    and "ast_parse c = Parsed t"
    and "visit (SafeEvaluator [''Ans'' \<mapsto> FloatV (ans app)] (app_deg_mode app)) t = Raise x"
  shows "evaluate_silent app = (Raise x, app)"
  using assms by (simp add: evaluate_silent_def SafeEvaluator_eval_def bind_def Let_def)

lemma evaluate_silent_syntax_error:
  assumes "strip (entry app) = e" and "e \<noteq> []" and "canonical e = c"
    and "ast_parse c = SyntaxError"
  shows "evaluate_silent app = (Raise (ValueError ''Syntax error.''), app)"
  using assms by (simp add: evaluate_silent_def SafeEvaluator_eval_def bind_def Let_def)

section \<open>Factorial after a closing parenthesis\<close>

text \<open>
  Claim C1. A \<^verbatim>\<open>)\<close> directly followed by \<^verbatim>\<open>!\<close> should wrap the span from the
  matching \<^verbatim>\<open>(\<close> through that \<^verbatim>\<open>)\<close> as \<^verbatim>\<open>fact(...)\<close>, so that
  \<^verbatim>\<open>(2+(1*3))!\<close> becomes \<^verbatim>\<open>fact((2+(1*3)))\<close> and \<^verbatim>\<open>(2+3)!\<close> evaluates to 120,
  as the comment of line 165 also promises. The code of lines 191 to 193 inserts
  \<^verbatim>\<open>fact(\<close> and appends a single \<^verbatim>\<open>)\<close>: the parenthesis that was read is never
  emitted, the result lacks one closing parenthesis, and the evaluation ends in a
  syntax error.
\<close>

theorem parenthesised_factorial_loses_paren:
  "replace_factorial ''(2+(1*3))!'' = ''fact((2+(1*3))''
   \<and> replace_factorial ''(2+3)!'' = ''fact((2+3)''
   \<and> evaluate_silent (app\<lparr>entry := ''(2+3)!''\<rparr>)
       = (Raise (ValueError ''Syntax error.''), app\<lparr>entry := ''(2+3)!''\<rparr>)"
proof -
  have a: "replace_factorial ''(2+(1*3))!'' = ''fact((2+(1*3))''" by code_simp
  have b: "replace_factorial ''(2+3)!'' = ''fact((2+3)''" by code_simp
  have s: "strip ''(2+3)!'' = ''(2+3)!''" by code_simp
  have c: "canonical ''(2+3)!'' = ''fact((2+3)''" by code_simp
  have p: "ast_parse ''fact((2+3)'' = SyntaxError" by code_simp
  have "evaluate_silent (app\<lparr>entry := ''(2+3)!''\<rparr>)
       = (Raise (ValueError ''Syntax error.''), app\<lparr>entry := ''(2+3)!''\<rparr>)"
    by (rule evaluate_silent_syntax_error [where e = "''(2+3)!''" and c = "''fact((2+3)''"])
       (simp_all add: s c p)
  with a b show ?thesis by simp
qed

section \<open>Identifiers\<close>

text \<open>
  Claim C7. For every variable binding, an identifier is looked up in the table of
  constants first and in the binding second: a constant wins over a variable of the
  same name (whatever the binding holds for \<^verbatim>\<open>pi\<close>, the identifier \<^verbatim>\<open>pi\<close> is
  the number \<open>\<pi>\<close>), and a name in neither table raises the error
  \<^verbatim>\<open>Unknown identifier: \<close> followed by the name.
\<close>

theorem identifier_lookup_order:
  "(consts_table ident = Some c \<longrightarrow> visit (SafeEvaluator variables deg) (Name ident) = Return c)
   \<and> (consts_table ident = None \<and> variables ident = Some v
        \<longrightarrow> visit (SafeEvaluator variables deg) (Name ident) = Return v)
   \<and> (consts_table ident = None \<and> variables ident = None
        \<longrightarrow> visit (SafeEvaluator variables deg) (Name ident)
            = Raise (ValueError (''Unknown identifier: '' @ ident)))
   \<and> (variables ''pi'' = Some v
        \<longrightarrow> SafeEvaluator_eval (SafeEvaluator variables deg) ''pi'' = Return (FloatV pi))
   \<and> (variables ''bar'' = None
        \<longrightarrow> SafeEvaluator_eval (SafeEvaluator variables deg) ''bar''
            = Raise (ValueError ''Unknown identifier: bar''))"
proof -
  have c1: "canonical ''pi'' = ''pi''" by code_simp
  have p1: "ast_parse ''pi'' = Parsed (Expression (Name ''pi''))" by code_simp
  have c2: "canonical ''bar'' = ''bar''" by code_simp
  have p2: "ast_parse ''bar'' = Parsed (Expression (Name ''bar''))" by code_simp
  show ?thesis
    by (simp add: SafeEvaluator_eval_def c1 p1 c2 p2 SafeEvaluator_def consts_table_def)
qed

theorem identifier_lookup_order_witness:
  "consts_table ''pi'' = Some (FloatV pi)
   \<and> visit (SafeEvaluator [''pi'' \<mapsto> IntV 3] True) (Name ''pi'') = Return (FloatV pi)
   \<and> consts_table ''Ans'' = None \<and> [''Ans'' \<mapsto> FloatV 2] ''Ans'' = Some (FloatV 2)
   \<and> visit (SafeEvaluator [''Ans'' \<mapsto> FloatV 2] True) (Name ''Ans'') = Return (FloatV 2)
   \<and> consts_table ''bar'' = None \<and> [''Ans'' \<mapsto> FloatV 2] ''bar'' = None
   \<and> visit (SafeEvaluator [''Ans'' \<mapsto> FloatV 2] True) (Name ''bar'')
       = Raise (ValueError ''Unknown identifier: bar'')
   \<and> [''pi'' \<mapsto> IntV 3] ''pi'' = Some (IntV 3)
   \<and> SafeEvaluator_eval (SafeEvaluator [''pi'' \<mapsto> IntV 3] True) ''pi'' = Return (FloatV pi)
   \<and> SafeEvaluator_eval (SafeEvaluator [''Ans'' \<mapsto> FloatV 2] True) ''bar''
       = Raise (ValueError ''Unknown identifier: bar'')"
proof -
  have h1: "consts_table ''pi'' = Some (FloatV pi)" by (simp add: consts_table_def)
  have h2: "consts_table ''Ans'' = None" by (simp add: consts_table_def)
  have h3: "consts_table ''bar'' = None" by (simp add: consts_table_def)
  show ?thesis
    using h1 h2 h3
      identifier_lookup_order [of "''pi''" "FloatV pi" "[''pi'' \<mapsto> IntV 3]" True "IntV 3"]
      identifier_lookup_order [of "''Ans''" "FloatV 2" "[''Ans'' \<mapsto> FloatV 2]" True "FloatV 2"]
      identifier_lookup_order [of "''bar''" "FloatV 2" "[''Ans'' \<mapsto> FloatV 2]" True "FloatV 2"]
    by simp
qed

section \<open>Blank input\<close>

text \<open>
  Claim C10. When the entry is empty or holds nothing but whitespace, the entry point
  returns the number 0.0: the text is not rewritten or parsed, and no error is
  reported.
\<close>

theorem blank_entry_returns_zero:
  "\<forall>c \<in> set (entry app). isspace c \<Longrightarrow> evaluate_silent app = (Return 0, app)"
  by (simp add: evaluate_silent_def strip_blank)

theorem blank_entry_returns_zero_witness:
  "isspace (CHR '' '') \<and> isspace (CHR 0x09)
   \<and> evaluate_silent (CalcApp_init\<lparr>entry := [CHR '' '', CHR 0x09, CHR '' '']\<rparr>)
      = (Return 0, CalcApp_init\<lparr>entry := [CHR '' '', CHR 0x09, CHR '' '']\<rparr>)"
proof -
  have h: "\<forall>c \<in> set (entry (CalcApp_init\<lparr>entry := [CHR '' '', CHR 0x09, CHR '' '']\<rparr>)). isspace c"
    by (simp add: isspace_def)
  from blank_entry_returns_zero [OF h] show ?thesis by (simp add: isspace_def)
qed

section \<open>Glyphs and percent\<close>

lemma replace_Nil: "replace old new [] = []"
  by (simp add: replace_def)

lemma replace_Cons: "replace old new (c # s) = (if c = old then new else [c]) @ replace old new s"
  by (simp add: replace_def)

lemma replace_append: "replace old new (xs @ ys) = replace old new xs @ replace old new ys"
  by (simp add: replace_def)

lemma glyph_distinct:
  "times_glyph \<noteq> div_glyph" "times_glyph \<noteq> CHR ''^''" "times_glyph \<noteq> CHR ''%''"
  "times_glyph \<noteq> CHR ''*''" "times_glyph \<noteq> CHR ''/''"
  "div_glyph \<noteq> CHR ''^''" "div_glyph \<noteq> CHR ''%''"
  "div_glyph \<noteq> CHR ''*''" "div_glyph \<noteq> CHR ''/''"
  by code_simp+

lemma substitute_Cons:
  "substitute (c # s) =
     (if c = times_glyph then ''*''
      else if c = div_glyph then ''/''
      else if c = CHR ''^'' then ''**''
      else if c = CHR ''%'' then ''/100''
      else [c]) @ substitute s"
  using glyph_distinct glyph_distinct [symmetric]
  by (simp add: substitute_def replace_Cons replace_append replace_Nil)

lemma substitute_spec: "substitute s = spec_substitute s"
proof (induction s)
  case Nil
  show ?case by (simp add: substitute_def spec_substitute_def replace_Nil)
next
  case (Cons c s)
  have "spec_substitute (c # s) =
     (if c = times_glyph then ''*''
      else if c = div_glyph then ''/''
      else if c = CHR ''^'' then ''**''
      else if c = CHR ''%'' then ''/100''
      else [c]) @ spec_substitute s"
    by (simp add: spec_substitute_def)
  with Cons show ?case by (simp only: substitute_Cons)
qed

lemma two_caret_ten: "evaluate_silent (app\<lparr>entry := ''2^10''\<rparr>) = (Return 1024, app\<lparr>entry := ''2^10''\<rparr>)"
proof -
  have s: "strip ''2^10'' = ''2^10''" by code_simp
  have c: "canonical ''2^10'' = ''2**10''" by code_simp
  have p: "ast_parse ''2**10'' = Parsed (Expression (BinOp (Constant (CInt 2)) Pow_op (Constant (CInt 10))))"
    by code_simp
  have v: "visit ev (Expression (BinOp (Constant (CInt 2)) Pow_op (Constant (CInt 10)))) = Return (IntV 1024)" for ev
    by (simp add: bin_ops_def operator_pow_def bind_def)
  have "evaluate_silent (app\<lparr>entry := ''2^10''\<rparr>) = (Return (real_of (IntV 1024)), app\<lparr>entry := ''2^10''\<rparr>)"
    by (rule evaluate_silent_returns [OF _ _ c p]) (simp_all add: s v del: visit.simps)
  then show ?thesis by simp
qed

lemma two_hundred_plus_ten_percent: "evaluate_silent (app\<lparr>entry := ''200 + 10%''\<rparr>) = (Return (2001 / 10), app\<lparr>entry := ''200 + 10%''\<rparr>)"
proof -
  have s: "strip ''200 + 10%'' = ''200 + 10%''" by code_simp
  have c: "canonical ''200 + 10%'' = ''200 + 10/100''" by code_simp
  have p: "ast_parse ''200 + 10/100'' = Parsed (Expression (BinOp (Constant (CInt 200)) Add
             (BinOp (Constant (CInt 10)) Div (Constant (CInt 100)))))"
    by code_simp
  have v: "visit ev (Expression (BinOp (Constant (CInt 200)) Add
             (BinOp (Constant (CInt 10)) Div (Constant (CInt 100))))) = Return (FloatV (2001 / 10))" for ev
    by (simp add: bin_ops_def operator_add_def operator_truediv_def arith_def bind_def)
  have "evaluate_silent (app\<lparr>entry := ''200 + 10%''\<rparr>) = (Return (real_of (FloatV (2001 / 10))), app\<lparr>entry := ''200 + 10%''\<rparr>)"
    by (rule evaluate_silent_returns [OF _ _ c p]) (simp_all add: s v del: visit.simps)
  then show ?thesis by simp
qed

text \<open>
  Claim C6. The preprocessor replaces the multiplication sign by \<^verbatim>\<open>*\<close>, the division
  sign by \<^verbatim>\<open>/\<close> and the caret by \<^verbatim>\<open>**\<close>, character for character, and then
  every \<^verbatim>\<open>%\<close> by \<^verbatim>\<open>/100\<close>, as a substitution on the text alone; so
  \<^verbatim>\<open>2^10\<close> evaluates to 1024 and \<^verbatim>\<open>200 + 10%\<close> to 200.1, not to 220.
\<close>

theorem substitution_is_textual:
  "substitute s = spec_substitute s
   \<and> canonical ''200 + 10%'' = ''200 + 10/100''
   \<and> evaluate_silent (app\<lparr>entry := ''2^10''\<rparr>) = (Return 1024, app\<lparr>entry := ''2^10''\<rparr>)
   \<and> evaluate_silent (app\<lparr>entry := ''200 + 10%''\<rparr>)
       = (Return (2001 / 10), app\<lparr>entry := ''200 + 10%''\<rparr>)
   \<and> fst (evaluate_silent (app\<lparr>entry := ''200 + 10%''\<rparr>)) \<noteq> Return 220"
proof -
  have c: "canonical ''200 + 10%'' = ''200 + 10/100''" by code_simp
  show ?thesis
    by (simp add: substitute_spec c two_caret_ten two_hundred_plus_ten_percent)
qed

section \<open>Degrees and radians\<close>

lemma trig_deg:
  "visit (SafeEvaluator vs True) (Call (Name ''sin'') [Constant (CFloat x)] []) = Return (FloatV (sin (x * (pi / 180))))"
  "visit (SafeEvaluator vs True) (Call (Name ''cos'') [Constant (CFloat x)] []) = Return (FloatV (cos (x * (pi / 180))))"
  "visit (SafeEvaluator vs True) (Call (Name ''tan'') [Constant (CFloat x)] []) = Return (FloatV (tan (x * (pi / 180))))"
  by (simp_all add: SafeEvaluator_def funcs_def wrap_trig_def lambda_x_def bind_def
        math_radians_def math_sin_def math_cos_def math_tan_def math_unary_def)

lemma trig_rad:
  "visit (SafeEvaluator vs False) (Call (Name ''sin'') [Constant (CFloat x)] []) = Return (FloatV (sin x))"
  "visit (SafeEvaluator vs False) (Call (Name ''cos'') [Constant (CFloat x)] []) = Return (FloatV (cos x))"
  "visit (SafeEvaluator vs False) (Call (Name ''tan'') [Constant (CFloat x)] []) = Return (FloatV (tan x))"
  by (simp_all add: SafeEvaluator_def funcs_def wrap_trig_def lambda_x_def bind_def
        math_radians_def math_sin_def math_cos_def math_tan_def math_unary_def)

lemma atrig_deg:
  "visit (SafeEvaluator vs True) (Call (Name ''asin'') [Constant (CFloat x)] []) =
     (if x < - 1 \<or> 1 < x then Raise domain_error else Return (FloatV (arcsin x * (180 / pi))))"
  "visit (SafeEvaluator vs True) (Call (Name ''acos'') [Constant (CFloat x)] []) =
     (if x < - 1 \<or> 1 < x then Raise domain_error else Return (FloatV (arccos x * (180 / pi))))"
  "visit (SafeEvaluator vs True) (Call (Name ''atan'') [Constant (CFloat x)] []) =
     Return (FloatV (arctan x * (180 / pi)))"
  by (simp_all add: SafeEvaluator_def funcs_def wrap_atrig_def lambda_x_def bind_def
        math_degrees_def math_asin_def math_acos_def math_atan_def math_unary_def)

lemma atrig_rad:
  "visit (SafeEvaluator vs False) (Call (Name ''asin'') [Constant (CFloat x)] []) =
     (if x < - 1 \<or> 1 < x then Raise domain_error else Return (FloatV (arcsin x)))"
  "visit (SafeEvaluator vs False) (Call (Name ''acos'') [Constant (CFloat x)] []) =
     (if x < - 1 \<or> 1 < x then Raise domain_error else Return (FloatV (arccos x)))"
  "visit (SafeEvaluator vs False) (Call (Name ''atan'') [Constant (CFloat x)] []) =
     Return (FloatV (arctan x))"
  by (simp_all add: SafeEvaluator_def funcs_def wrap_atrig_def lambda_x_def bind_def
        math_degrees_def math_asin_def math_acos_def math_atan_def math_unary_def)

lemma sin_thirty_degrees:
  "evaluate_silent (app\<lparr>entry := ''sin(30)'', app_deg_mode := True\<rparr>)
     = (Return (1 / 2), app\<lparr>entry := ''sin(30)'', app_deg_mode := True\<rparr>)"
proof -
  have s: "strip ''sin(30)'' = ''sin(30)''" by code_simp
  have c: "canonical ''sin(30)'' = ''sin(30)''" by code_simp
  have p: "ast_parse ''sin(30)'' = Parsed (Expression (Call (Name ''sin'') [Constant (CInt 30)] []))"
    by code_simp
  have a: "30 * (pi / 180) = pi / 6" by simp
  have v: "visit (SafeEvaluator vs True) (Expression (Call (Name ''sin'') [Constant (CInt 30)] []))
            = Return (FloatV (1 / 2))" for vs
    by (simp add: SafeEvaluator_def funcs_def wrap_trig_def lambda_x_def bind_def
        math_radians_def math_sin_def math_unary_def a sin_30)
  have "evaluate_silent (app\<lparr>entry := ''sin(30)'', app_deg_mode := True\<rparr>)
     = (Return (real_of (FloatV (1 / 2))), app\<lparr>entry := ''sin(30)'', app_deg_mode := True\<rparr>)"
    by (rule evaluate_silent_returns [OF _ _ c p]) (simp_all add: s v del: visit.simps)
  then show ?thesis by simp
qed

lemma sin_pi_sixth_radians:
  "evaluate_silent (app\<lparr>entry := ''sin(pi/6)'', app_deg_mode := False\<rparr>)
     = (Return (1 / 2), app\<lparr>entry := ''sin(pi/6)'', app_deg_mode := False\<rparr>)"
proof -
  have s: "strip ''sin(pi/6)'' = ''sin(pi/6)''" by code_simp
  have c: "canonical ''sin(pi/6)'' = ''sin(pi/6)''" by code_simp
  have p: "ast_parse ''sin(pi/6)'' = Parsed (Expression (Call (Name ''sin'') [BinOp (Name ''pi'') Div (Constant (CInt 6))] []))"
    by code_simp
  have v: "visit (SafeEvaluator vs False) (Expression (Call (Name ''sin'') [BinOp (Name ''pi'') Div (Constant (CInt 6))] []))
            = Return (FloatV (1 / 2))" for vs
    by (simp add: SafeEvaluator_def funcs_def wrap_trig_def bind_def consts_table_def
        bin_ops_def operator_truediv_def math_sin_def math_unary_def sin_30)
  have "evaluate_silent (app\<lparr>entry := ''sin(pi/6)'', app_deg_mode := False\<rparr>)
     = (Return (real_of (FloatV (1 / 2))), app\<lparr>entry := ''sin(pi/6)'', app_deg_mode := False\<rparr>)"
    by (rule evaluate_silent_returns [OF _ _ c p]) (simp_all add: s v del: visit.simps)
  then show ?thesis by simp
qed

text \<open>
  Claim C8. In degree mode the forward trigonometric functions \<^verbatim>\<open>sin\<close>,
  \<^verbatim>\<open>cos\<close> and \<^verbatim>\<open>tan\<close> convert their argument from degrees to radians before
  the host function is applied, and the inverse functions \<^verbatim>\<open>asin\<close>, \<^verbatim>\<open>acos\<close>
  and \<^verbatim>\<open>atan\<close> convert the result of the host function from radians to degrees; in
  radian mode nothing is converted. In degree mode \<^verbatim>\<open>sin(30)\<close> is one half, and in
  radian mode \<^verbatim>\<open>sin(pi/6)\<close> is one half (exactly so over the real numbers that stand
  for Python's floats here).
\<close>

theorem trig_follows_angle_mode:
  "visit (SafeEvaluator vs True) (Call (Name ''sin'') [Constant (CFloat x)] [])
     = Return (FloatV (sin (x * (pi / 180))))
   \<and> visit (SafeEvaluator vs True) (Call (Name ''cos'') [Constant (CFloat x)] [])
     = Return (FloatV (cos (x * (pi / 180))))
   \<and> visit (SafeEvaluator vs True) (Call (Name ''tan'') [Constant (CFloat x)] [])
     = Return (FloatV (tan (x * (pi / 180))))
   \<and> visit (SafeEvaluator vs True) (Call (Name ''asin'') [Constant (CFloat x)] [])
     = (if x < - 1 \<or> 1 < x then Raise (ValueError ''math domain error'')
        else Return (FloatV (arcsin x * (180 / pi))))
   \<and> visit (SafeEvaluator vs True) (Call (Name ''acos'') [Constant (CFloat x)] [])
     = (if x < - 1 \<or> 1 < x then Raise (ValueError ''math domain error'')
        else Return (FloatV (arccos x * (180 / pi))))
   \<and> visit (SafeEvaluator vs True) (Call (Name ''atan'') [Constant (CFloat x)] [])
     = Return (FloatV (arctan x * (180 / pi)))
   \<and> visit (SafeEvaluator vs False) (Call (Name ''sin'') [Constant (CFloat x)] [])
     = Return (FloatV (sin x))
   \<and> visit (SafeEvaluator vs False) (Call (Name ''cos'') [Constant (CFloat x)] [])
     = Return (FloatV (cos x))
   \<and> visit (SafeEvaluator vs False) (Call (Name ''tan'') [Constant (CFloat x)] [])
     = Return (FloatV (tan x))
   \<and> visit (SafeEvaluator vs False) (Call (Name ''asin'') [Constant (CFloat x)] [])
     = (if x < - 1 \<or> 1 < x then Raise (ValueError ''math domain error'')
        else Return (FloatV (arcsin x)))
   \<and> visit (SafeEvaluator vs False) (Call (Name ''acos'') [Constant (CFloat x)] [])
     = (if x < - 1 \<or> 1 < x then Raise (ValueError ''math domain error'')
        else Return (FloatV (arccos x)))
   \<and> visit (SafeEvaluator vs False) (Call (Name ''atan'') [Constant (CFloat x)] [])
     = Return (FloatV (arctan x))
   \<and> evaluate_silent (app\<lparr>entry := ''sin(30)'', app_deg_mode := True\<rparr>)
     = (Return (1 / 2), app\<lparr>entry := ''sin(30)'', app_deg_mode := True\<rparr>)
   \<and> evaluate_silent (app\<lparr>entry := ''sin(pi/6)'', app_deg_mode := False\<rparr>)
     = (Return (1 / 2), app\<lparr>entry := ''sin(pi/6)'', app_deg_mode := False\<rparr>)"
  unfolding trig_deg trig_rad atrig_deg atrig_rad sin_thirty_degrees sin_pi_sixth_radians
    domain_error_def
  by simp

section \<open>Complex results\<close>

lemma empty_is_syntax_error: "SafeEvaluator_eval ev [] = Raise (ValueError ''Syntax error.'')"
proof -
  have c: "canonical [] = []" by code_simp
  have p: "ast_parse [] = SyntaxError" by code_simp
  show ?thesis by (simp add: SafeEvaluator_eval_def c p)
qed

lemma sqrt_minus_one:
  "evaluate_silent (app\<lparr>entry := ''sqrt(-1)''\<rparr>)
     = (Raise (ValueError ''math domain error''), app\<lparr>entry := ''sqrt(-1)''\<rparr>)"
proof -
  have s: "strip ''sqrt(-1)'' = ''sqrt(-1)''" by code_simp
  have c: "canonical ''sqrt(-1)'' = ''sqrt(-1)''" by code_simp
  have p: "ast_parse ''sqrt(-1)'' =
      Parsed (Expression (Call (Name ''sqrt'') [UnaryOp USub (Constant (CInt 1))] []))"
    by code_simp
  have v: "visit ev (Expression (Call (Name ''sqrt'') [UnaryOp USub (Constant (CInt 1))] []))
      = Raise (ValueError ''math domain error'')" for ev
    by (simp add: funcs_def unary_ops_def operator_neg_def bind_def math_sqrt_def
          math_unary_def domain_error_def)
  show ?thesis
    by (rule evaluate_silent_raises [OF _ _ c p]) (simp_all add: s v del: visit.simps)
qed

lemma minus_one_to_half:
  "SafeEvaluator_eval ev ''(-1)**0.5'' = Return (ComplexV (rcis 1 (pi / 2)))"
proof -
  have c: "canonical ''(-1)**0.5'' = ''(-1)**0.5''" by code_simp
  have p: "ast_parse ''(-1)**0.5'' =
      Parsed (Expression (BinOp (UnaryOp USub (Constant (CInt 1))) Pow_op (Constant (CFloat (1 / 2)))))"
    by code_simp
  have v: "visit ev (Expression (BinOp (UnaryOp USub (Constant (CInt 1))) Pow_op
      (Constant (CFloat (1 / 2))))) = Return (ComplexV (rcis 1 (pi / 2)))"
    by (simp add: bin_ops_def unary_ops_def operator_neg_def operator_pow_def float_pow_def
          bind_def)
  show ?thesis by (simp add: SafeEvaluator_eval_def c p v del: visit.simps)
qed

text \<open>
  Claim C3 says that \<^verbatim>\<open>sqrt(-1)\<close> fails with the error for complex results. The
  table maps \<^verbatim>\<open>sqrt\<close> to \<^verbatim>\<open>math.sqrt\<close>, which never returns a complex number: on
  a negative argument it raises \<^verbatim>\<open>ValueError("math domain error")\<close>, and that is the
  error of the call.
\<close>

theorem sqrt_of_negative_is_not_complex_counterexample:
  "evaluate_silent (CalcApp_init\<lparr>entry := ''sqrt(-1)''\<rparr>)
     = (Raise (ValueError ''math domain error''), CalcApp_init\<lparr>entry := ''sqrt(-1)''\<rparr>)
   \<and> fst (evaluate_silent (CalcApp_init\<lparr>entry := ''sqrt(-1)''\<rparr>))
       \<noteq> Raise (ValueError ''Complex results not supported.'')"
  by (simp add: sqrt_minus_one)


text \<open>
  Claim C3, amended. Whenever \<^verbatim>\<open>SafeEvaluator.eval\<close> returns a complex number, as it
  does for \<^verbatim>\<open>(-1)**0.5\<close>, the entry point fails with
  \<^verbatim>\<open>Complex results not supported.\<close> instead of returning it; \<^verbatim>\<open>sqrt(-1)\<close> fails
  with the host's \<^verbatim>\<open>math domain error\<close>.
\<close>

theorem complex_result_rejected:
  "(SafeEvaluator_eval (SafeEvaluator [''Ans'' \<mapsto> FloatV (ans app)] (app_deg_mode app))
        (strip (entry app)) = Return (ComplexV z)
      \<longrightarrow> evaluate_silent app = (Raise (ValueError ''Complex results not supported.''), app))
   \<and> evaluate_silent (app\<lparr>entry := ''sqrt(-1)''\<rparr>)
       = (Raise (ValueError ''math domain error''), app\<lparr>entry := ''sqrt(-1)''\<rparr>)"
proof -
  have "evaluate_silent app = (Raise (ValueError ''Complex results not supported.''), app)"
    if h: "SafeEvaluator_eval (SafeEvaluator [''Ans'' \<mapsto> FloatV (ans app)] (app_deg_mode app))
        (strip (entry app)) = Return (ComplexV z)"
  proof -
    from h have "strip (entry app) \<noteq> []"
      by (auto simp: empty_is_syntax_error)
    with h show ?thesis
      by (simp add: evaluate_silent_def Let_def bind_def)
  qed
  then show ?thesis by (simp add: sqrt_minus_one)
qed

theorem complex_result_rejected_witness:
  "SafeEvaluator_eval (SafeEvaluator [''Ans'' \<mapsto> FloatV 0] True) ''(-1)**0.5''
     = Return (ComplexV (rcis 1 (pi / 2)))
   \<and> evaluate_silent (CalcApp_init\<lparr>entry := ''(-1)**0.5''\<rparr>)
     = (Raise (ValueError ''Complex results not supported.''),
        CalcApp_init\<lparr>entry := ''(-1)**0.5''\<rparr>)"
proof -
  have s: "strip ''(-1)**0.5'' = ''(-1)**0.5''" by code_simp
  have h: "SafeEvaluator_eval
      (SafeEvaluator [''Ans'' \<mapsto> FloatV (ans (CalcApp_init\<lparr>entry := ''(-1)**0.5''\<rparr>))]
         (app_deg_mode (CalcApp_init\<lparr>entry := ''(-1)**0.5''\<rparr>)))
      (strip (entry (CalcApp_init\<lparr>entry := ''(-1)**0.5''\<rparr>)))
      = Return (ComplexV (rcis 1 (pi / 2)))"
    by (simp add: s minus_one_to_half)
  from complex_result_rejected [of "CalcApp_init\<lparr>entry := ''(-1)**0.5''\<rparr>" "rcis 1 (pi / 2)"] h
  show ?thesis by (simp add: minus_one_to_half)
qed

section \<open>Purity of the evaluation\<close>

lemma factorial_five:
  "evaluate_silent (app\<lparr>entry := ''5!''\<rparr>) = (Return 120, app\<lparr>entry := ''5!''\<rparr>)"
proof -
  have s: "strip ''5!'' = ''5!''" by code_simp
  have c: "canonical ''5!'' = ''fact(5)''" by code_simp
  have p: "ast_parse ''fact(5)'' = Parsed (Expression (Call (Name ''fact'') [Constant (CInt 5)] []))"
    by code_simp
  have v: "visit ev (Expression (Call (Name ''fact'') [Constant (CInt 5)] [])) = Return (IntV 120)"
    for ev
    by (simp add: funcs_def math_factorial_def bind_def fact_numeral)
  have "evaluate_silent (app\<lparr>entry := ''5!''\<rparr>)
      = (Return (real_of (IntV 120)), app\<lparr>entry := ''5!''\<rparr>)"
    by (rule evaluate_silent_returns [OF _ _ c p]) (simp_all add: s v del: visit.simps)
  then show ?thesis by simp
qed

lemma factorial_zero:
  "evaluate_silent (app\<lparr>entry := ''0!''\<rparr>) = (Return 1, app\<lparr>entry := ''0!''\<rparr>)"
proof -
  have s: "strip ''0!'' = ''0!''" by code_simp
  have c: "canonical ''0!'' = ''fact(0)''" by code_simp
  have p: "ast_parse ''fact(0)'' = Parsed (Expression (Call (Name ''fact'') [Constant (CInt 0)] []))"
    by code_simp
  have v: "visit ev (Expression (Call (Name ''fact'') [Constant (CInt 0)] [])) = Return (IntV 1)"
    for ev
    by (simp add: funcs_def math_factorial_def bind_def)
  have "evaluate_silent (app\<lparr>entry := ''0!''\<rparr>)
      = (Return (real_of (IntV 1)), app\<lparr>entry := ''0!''\<rparr>)"
    by (rule evaluate_silent_returns [OF _ _ c p]) (simp_all add: s v del: visit.simps)
  then show ?thesis by simp
qed

text \<open>
  Claim C9. Two evaluations with the same expression text, the same variable binding
  and the same angle mode give the same number or the same error: the entry point
  leaves the state of the application as it found it, its outcome depends on no other
  part of that state (memory, undo and redo stacks, history), a second call on the
  state left by the first gives the same outcome, and the outcome of
  \<^verbatim>\<open>SafeEvaluator.eval\<close> is determined by the binding and the mode the evaluator was
  built with.
\<close>

theorem evaluation_is_pure:
  "snd (evaluate_silent a) = a
   \<and> (entry a = entry b \<and> ans a = ans b \<and> app_deg_mode a = app_deg_mode b
        \<longrightarrow> fst (evaluate_silent a) = fst (evaluate_silent b))
   \<and> fst (evaluate_silent (snd (evaluate_silent a))) = fst (evaluate_silent a)
   \<and> (vars ev = vars ev' \<and> deg_mode ev = deg_mode ev'
        \<longrightarrow> SafeEvaluator_eval ev s = SafeEvaluator_eval ev' s)"
proof -
  have 1: "snd (evaluate_silent a) = a"
    by (simp add: evaluate_silent_def Let_def)
  have 2: "fst (evaluate_silent a) = fst (evaluate_silent b)"
    if "entry a = entry b \<and> ans a = ans b \<and> app_deg_mode a = app_deg_mode b"
    using that by (simp add: evaluate_silent_def Let_def)
  have 3: "SafeEvaluator_eval ev s = SafeEvaluator_eval ev' s"
    if "vars ev = vars ev' \<and> deg_mode ev = deg_mode ev'"
  proof -
    from that have "ev = ev'" by simp
    then show ?thesis by simp
  qed
  from 1 2 3 show ?thesis by simp
qed

theorem evaluation_is_pure_witness:
  "fst (evaluate_silent (CalcApp_init\<lparr>entry := ''5!'', memory := 7, undo_stack := [''5'']\<rparr>))
     = fst (evaluate_silent (CalcApp_init\<lparr>entry := ''5!''\<rparr>))
   \<and> fst (evaluate_silent (CalcApp_init\<lparr>entry := ''5!''\<rparr>)) = Return 120
   \<and> snd (evaluate_silent (CalcApp_init\<lparr>entry := ''5!''\<rparr>)) = CalcApp_init\<lparr>entry := ''5!''\<rparr>
   \<and> SafeEvaluator_eval (SafeEvaluator [''Ans'' \<mapsto> FloatV 0] True) ''5!''
       = SafeEvaluator_eval \<lparr>vars = [''Ans'' \<mapsto> FloatV 0], deg_mode = True\<rparr> ''5!''"
  using evaluation_is_pure
    [of "CalcApp_init\<lparr>entry := ''5!''\<rparr>"
        "CalcApp_init\<lparr>entry := ''5!'', memory := 7, undo_stack := [''5'']\<rparr>"
        "SafeEvaluator [''Ans'' \<mapsto> FloatV 0] True"
        "\<lparr>vars = [''Ans'' \<mapsto> FloatV 0], deg_mode = True\<rparr>" "''5!''"]
  by (simp add: factorial_five SafeEvaluator_def)

section \<open>Steps of the factorial scan\<close>

text \<open>
  One iteration of the loop of \<^verbatim>\<open>_replace_factorial\<close>, case by case, and the two
  facts the following sections rest on: the scan of a text can be cut at a boundary it
  arrives at, and a piece that has been emitted stays in the output.
\<close>

declare replace_loop.simps [simp del]

lemma pop_n_take: "pop_n n xs = take (length xs - n) xs"
proof (induction n)
  case 0
  show ?case by (simp add: pop_n_def)
next
  case (Suc n)
  have "pop_n (Suc n) xs = butlast (pop_n n xs)" by (simp add: pop_n_def)
  also have "\<dots> = butlast (take (length xs - n) xs)" by (simp only: Suc)
  also have "\<dots> = take (length xs - Suc n) xs" by (simp add: butlast_take)
  finally show ?case .
qed

lemma pop_n_append: "pop_n (length ys) (xs @ ys) = xs"
  by (simp add: pop_n_take)

lemma not_run_bang: "\<not> is_run_char (CHR ''!'')"
  by code_simp

lemma not_digit_bang: "\<not> isdigit (CHR ''!'')"
  by code_simp

lemma not_digit_rpar: "\<not> isdigit (CHR '')'')"
  by code_simp

lemma step_bang: "replace_loop (CHR ''!'' # rest) out = replace_loop rest (out @ [''!''])"
  by (simp add: replace_loop.simps)

lemma step_rpar_bang:
  "replace_loop (CHR '')'' # CHR ''!'' # rest) out =
     replace_loop rest (list_insert out (find_open out 1 (length out)) ''fact('' @ ['')''])"
  by (simp add: replace_loop.simps)

lemma step_run_bang:
  assumes "isdigit c" and "dropWhile is_run_char rest = CHR ''!'' # after"
  shows "replace_loop (c # rest) out =
     replace_loop after (out @ [''fact('' @ c # takeWhile is_run_char rest @ '')''])"
proof -
  from assms(1) have r: "is_run_char c" and n: "c \<noteq> CHR ''!''" "c \<noteq> CHR '')''"
    using not_digit_bang not_digit_rpar by (auto simp: is_run_char_def)
  have "pop_n (length (c # takeWhile is_run_char rest))
          (out @ map (\<lambda>d. [d]) (c # takeWhile is_run_char rest)) = out"
    using pop_n_append [of "map (\<lambda>d. [d]) (c # takeWhile is_run_char rest)" out] by simp
  then show ?thesis
    using assms r n by (subst replace_loop.simps) (simp add: Let_def)
qed

lemma step_run_plain:
  assumes "isdigit c" and "dropWhile is_run_char rest = [] \<or> hd (dropWhile is_run_char rest) \<noteq> CHR ''!''"
  shows "replace_loop (c # rest) out =
     replace_loop (dropWhile is_run_char rest)
       (out @ map (\<lambda>d. [d]) (c # takeWhile is_run_char rest))"
proof -
  from assms(1) have r: "is_run_char c" and n: "c \<noteq> CHR ''!''" "c \<noteq> CHR '')''"
    using not_digit_bang not_digit_rpar by (auto simp: is_run_char_def)
  show ?thesis
    using assms r n by (subst replace_loop.simps) (auto simp: Let_def)
qed

lemma step_other:
  assumes "c \<noteq> CHR ''!''" and "\<not> isdigit c"
    and "\<not> (c = CHR '')'' \<and> rest \<noteq> [] \<and> hd rest = CHR ''!'')"
  shows "replace_loop (c # rest) out = replace_loop rest (out @ [[c]])"
  using assms by (subst replace_loop.simps) auto

lemma takeWhile_stop:
  assumes "\<not> P y"
  shows "takeWhile P (xs @ y # ys) = takeWhile P xs"
  using assms by (induction xs) simp_all

lemma dropWhile_stop:
  assumes "\<not> P y"
  shows "dropWhile P (xs @ y # ys) = dropWhile P xs @ y # ys"
  using assms by (induction xs) simp_all

lemma takeWhile_within:
  assumes "xs \<noteq> []" and "\<not> P (last xs)"
  shows "takeWhile P (xs @ ys) = takeWhile P xs"
  using assms by (induction xs) (auto split: if_splits)

lemma dropWhile_within:
  assumes "xs \<noteq> []" and "\<not> P (last xs)"
  shows "dropWhile P (xs @ ys) = dropWhile P xs @ ys \<and> dropWhile P xs \<noteq> []
         \<and> last (dropWhile P xs) = last xs"
  using assms by (induction xs) (auto split: if_splits)

lemma cut_ok_tail:
  assumes "cut_ok pre s" and "pre = x @ y"
  shows "cut_ok y s"
  using assms by (cases y) (auto simp: cut_ok_def)

lemma replace_loop_Nil: "replace_loop [] out = out"
  by (simp add: replace_loop.simps)

lemma replace_loop_cut:
  assumes "cut_ok pre s"
  shows "replace_loop (pre @ s) out = replace_loop s (replace_loop pre out)"
  using assms
proof (induction "length pre" arbitrary: pre out rule: less_induct)
  case less
  show ?case
  proof (cases pre)
    case Nil
    then show ?thesis by (simp add: replace_loop_Nil)
  next
    case (Cons c rest)
    note pre = Cons
    have tail: "cut_ok y s" if "pre = x @ y" for x y
      using less.prems that by (rule cut_ok_tail)
    have IH: "replace_loop (y @ s) o' = replace_loop s (replace_loop y o')"
      if "pre = x @ y" and "x \<noteq> []" for x y o'
      using less.hyps [of y o'] tail [OF that(1)] that by simp
    consider (bang) "c = CHR ''!''"
      | (rpar) "c = CHR '')''" "rest \<noteq> []" "hd rest = CHR ''!''"
      | (digit) "isdigit c"
      | (other) "c \<noteq> CHR ''!''" "\<not> isdigit c"
          "\<not> (c = CHR '')'' \<and> rest \<noteq> [] \<and> hd rest = CHR ''!'')"
      by blast
    then show ?thesis
    proof cases
      case bang
      have "replace_loop (pre @ s) out = replace_loop (rest @ s) (out @ [''!''])"
        by (simp add: pre bang step_bang)
      also have "\<dots> = replace_loop s (replace_loop rest (out @ [''!'']))"
        by (rule IH [of "[c]"]) (simp_all add: pre)
      also have "\<dots> = replace_loop s (replace_loop pre out)"
        by (simp add: pre bang step_bang)
      finally show ?thesis .
    next
      case rpar
      then obtain rest' where rest: "rest = CHR ''!'' # rest'" by (cases rest) auto
      let ?o = "list_insert out (find_open out 1 (length out)) ''fact('' @ ['')'']"
      have "replace_loop (pre @ s) out = replace_loop (rest' @ s) ?o"
        by (simp add: pre rpar rest step_rpar_bang)
      also have "\<dots> = replace_loop s (replace_loop rest' ?o)"
        by (rule IH [of "[c, CHR ''!'']"]) (simp_all add: pre rest)
      also have "\<dots> = replace_loop s (replace_loop pre out)"
        by (simp add: pre rpar rest step_rpar_bang)
      finally show ?thesis .
    next
      case digit
      then have rc: "is_run_char c" by (simp add: is_run_char_def)
      from less.prems pre have nl: "\<not> is_run_char (last pre)"
        by (auto simp: cut_ok_def)
      with rc pre have rne: "rest \<noteq> []" and lr: "\<not> is_run_char (last rest)"
        by (auto split: if_splits)
      from dropWhile_within [where P = is_run_char and xs = rest and ys = s, OF rne lr]
        takeWhile_within [where P = is_run_char and xs = rest and ys = s, OF rne lr]
      have dw: "dropWhile is_run_char (rest @ s) = dropWhile is_run_char rest @ s"
        and dne: "dropWhile is_run_char rest \<noteq> []"
        and tw: "takeWhile is_run_char (rest @ s) = takeWhile is_run_char rest"
        by simp_all
      let ?d = "dropWhile is_run_char rest"
      have split: "rest = takeWhile is_run_char rest @ ?d" by simp
      show ?thesis
      proof (cases "hd ?d = CHR ''!''")
        case True
        with dne obtain after where d: "?d = CHR ''!'' # after" by (cases ?d) auto
        let ?o = "out @ [''fact('' @ c # takeWhile is_run_char rest @ '')'']"
        have p: "pre = (c # takeWhile is_run_char rest @ [CHR ''!'']) @ after"
          using pre split d by (metis append_Cons append_Nil append_assoc)
        have "replace_loop (pre @ s) out = replace_loop (after @ s) ?o"
          using step_run_bang [OF digit, of "rest @ s" "after @ s" out]
          by (simp add: pre dw d tw)
        also have "\<dots> = replace_loop s (replace_loop after ?o)"
          by (rule IH [OF p]) simp
        also have "\<dots> = replace_loop s (replace_loop pre out)"
          using step_run_bang [OF digit d, of out] by (simp add: pre)
        finally show ?thesis .
      next
        case False
        let ?o = "out @ map (\<lambda>d. [d]) (c # takeWhile is_run_char rest)"
        have p: "pre = (c # takeWhile is_run_char rest) @ ?d"
          using pre split by simp
        from False dne have h: "hd (?d @ s) \<noteq> CHR ''!''" by simp
        have "replace_loop (pre @ s) out = replace_loop (?d @ s) ?o"
          using step_run_plain [OF digit, of "rest @ s" out] h
          by (simp add: pre dw tw)
        also have "\<dots> = replace_loop s (replace_loop ?d ?o)"
          by (rule IH [OF p]) simp
        also have "\<dots> = replace_loop s (replace_loop pre out)"
          using step_run_plain [OF digit, of rest out] False by (simp add: pre)
        finally show ?thesis .
      qed
    next
      case other
      have n: "\<not> (c = CHR '')'' \<and> rest @ s \<noteq> [] \<and> hd (rest @ s) = CHR ''!'')"
      proof (cases rest)
        case Nil
        with less.prems pre show ?thesis by (auto simp: cut_ok_def)
      next
        case (Cons a list)
        with other(3) show ?thesis by simp
      qed
      have "replace_loop (pre @ s) out = replace_loop (rest @ s) (out @ [[c]])"
        using step_other [OF other(1,2) n] by (simp add: pre)
      also have "\<dots> = replace_loop s (replace_loop rest (out @ [[c]]))"
        by (rule IH [of "[c]"]) (simp_all add: pre)
      also have "\<dots> = replace_loop s (replace_loop pre out)"
        using step_other [OF other] by (simp add: pre)
      finally show ?thesis .
    qed
  qed
qed

lemma set_list_insert: "set (list_insert xs j x) = insert x (set xs)"
proof -
  have "set (take k xs) \<union> set (drop k xs) = set xs" for k
    by (metis append_take_drop_id set_append)
  then show ?thesis by (auto simp: list_insert_def Let_def)
qed

lemma pieces_kept: "set out \<subseteq> set (replace_loop s out)"
proof (induction "length s" arbitrary: s out rule: less_induct)
  case less
  show ?case
  proof (cases s)
    case Nil
    then show ?thesis by (simp add: replace_loop_Nil)
  next
    case (Cons c rest)
    note s = Cons
    have IH: "set o' \<subseteq> set (replace_loop y o')" if "length y < length s" for y o'
      using less.hyps that by simp
    consider (bang) "c = CHR ''!''"
      | (rpar) "c = CHR '')''" "rest \<noteq> []" "hd rest = CHR ''!''"
      | (digit) "isdigit c"
      | (other) "c \<noteq> CHR ''!''" "\<not> isdigit c"
          "\<not> (c = CHR '')'' \<and> rest \<noteq> [] \<and> hd rest = CHR ''!'')"
      by blast
    then show ?thesis
    proof cases
      case bang
      have "set (out @ [''!'']) \<subseteq> set (replace_loop rest (out @ [''!'']))"
        by (rule IH) (simp add: s)
      then show ?thesis by (simp add: s bang step_bang)
    next
      case rpar
      then obtain rest' where rest: "rest = CHR ''!'' # rest'" by (cases rest) auto
      let ?o = "list_insert out (find_open out 1 (length out)) ''fact('' @ ['')'']"
      have "set ?o \<subseteq> set (replace_loop rest' ?o)"
        by (rule IH) (simp add: s rest)
      then show ?thesis by (auto simp: s rpar rest step_rpar_bang set_list_insert)
    next
      case digit
      let ?d = "dropWhile is_run_char rest"
      have len: "length ?d \<le> length rest" by (rule length_dropWhile_le)
      show ?thesis
      proof (cases "?d \<noteq> [] \<and> hd ?d = CHR ''!''")
        case True
        then obtain after where d: "?d = CHR ''!'' # after" by (cases ?d) auto
        let ?o = "out @ [''fact('' @ c # takeWhile is_run_char rest @ '')'']"
        from len d have "length after < length s" by (simp add: s)
        then have "set ?o \<subseteq> set (replace_loop after ?o)" by (rule IH)
        then show ?thesis using step_run_bang [OF digit d, of out] by (simp add: s)
      next
        case False
        let ?o = "out @ map (\<lambda>d. [d]) (c # takeWhile is_run_char rest)"
        from len have "length ?d < length s" by (simp add: s)
        then have "set ?o \<subseteq> set (replace_loop ?d ?o)" by (rule IH)
        moreover have "replace_loop s out = replace_loop ?d ?o"
          unfolding s using False by (intro step_run_plain [OF digit]) auto
        ultimately show ?thesis by auto
      qed
    next
      case other
      have "set (out @ [[c]]) \<subseteq> set (replace_loop rest (out @ [[c]]))"
        by (rule IH) (simp add: s)
      then show ?thesis using step_other [OF other, of out] by (simp add: s)
    qed
  qed
qed

lemma piece_in_concat:
  assumes "p \<in> set xs"
  shows "\<exists>a b. concat xs = a @ p @ b"
proof -
  from assms obtain ys zs where "xs = ys @ p # zs" by (auto dest: split_list)
  then have "concat xs = concat ys @ p @ concat zs" by simp
  then show ?thesis by blast
qed

lemma run_step:
  assumes "isdigit d" and "\<forall>c \<in> set run. is_run_char c"
  shows "replace_loop (d # run @ CHR ''!'' # post) out =
           replace_loop post (out @ [''fact('' @ d # run @ '')''])"
proof -
  from assms(2) have t: "takeWhile is_run_char (run @ CHR ''!'' # post) = run"
    and dr: "dropWhile is_run_char (run @ CHR ''!'' # post) = CHR ''!'' # post"
    using not_run_bang by (simp_all add: takeWhile_stop dropWhile_stop)
  from step_run_bang [OF assms(1) dr, of out] show ?thesis by (simp add: t)
qed

section \<open>Factorial after a number\<close>

text \<open>
  Claim C5 says that a run of digits and decimal points directly followed by
  \<^verbatim>\<open>!\<close> is rewritten to \<^verbatim>\<open>fact(run)\<close>. Line 196 starts a run at a digit only:
  in \<^verbatim>\<open>.5!\<close> the run \<^verbatim>\<open>.5\<close> is not wrapped, the point is copied and the digit
  alone becomes the argument.
\<close>

theorem leading_point_run_counterexample:
  "replace_factorial ''.5!'' = ''.fact(5)'' \<and> replace_factorial ''.5!'' \<noteq> ''fact(.5)''"
proof -
  have "replace_factorial ''.5!'' = ''.fact(5)''" by code_simp
  then show ?thesis by simp
qed


text \<open>
  Claim C5, amended. A run of digits and decimal points that begins with a digit, is not
  the continuation of such characters before it and is directly followed by \<^verbatim>\<open>!\<close>
  is rewritten to \<^verbatim>\<open>fact(run)\<close>: the scan emits this one piece for the run and its
  \<^verbatim>\<open>!\<close> and goes on behind them, and the piece is part of the result. So
  \<^verbatim>\<open>5!\<close> evaluates to 120 and \<^verbatim>\<open>0!\<close> to 1.
\<close>

theorem digit_run_factorial:
  assumes "isdigit d" and "\<forall>c \<in> set run. is_run_char c"
    and "pre = [] \<or> \<not> is_run_char (last pre)"
  shows "replace_loop (pre @ d # run @ CHR ''!'' # post) out
           = replace_loop post (replace_loop pre out @ [''fact('' @ d # run @ '')''])
       \<and> replace_factorial (pre @ d # run @ CHR ''!'' # post)
           = concat (replace_loop post (replace_loop pre [] @ [''fact('' @ d # run @ '')'']))
       \<and> (\<exists>a b. replace_factorial (pre @ d # run @ CHR ''!'' # post)
                   = a @ ''fact('' @ d # run @ '')'' @ b)
       \<and> evaluate_silent (app\<lparr>entry := ''5!''\<rparr>) = (Return 120, app\<lparr>entry := ''5!''\<rparr>)
       \<and> evaluate_silent (app\<lparr>entry := ''0!''\<rparr>) = (Return 1, app\<lparr>entry := ''0!''\<rparr>)"
proof -
  from assms(1) have "d \<noteq> CHR ''!''" using not_digit_bang by auto
  with assms(3) have cut: "cut_ok pre (d # run @ CHR ''!'' # post)"
    by (auto simp: cut_ok_def)
  have eq: "replace_loop (pre @ d # run @ CHR ''!'' # post) o'
           = replace_loop post (replace_loop pre o' @ [''fact('' @ d # run @ '')''])" for o'
    using replace_loop_cut [OF cut, of o'] run_step [OF assms(1,2)] by simp
  have "''fact('' @ d # run @ '')'' \<in> set (replace_loop pre [] @ [''fact('' @ d # run @ '')''])"
    by simp
  with pieces_kept
  have "''fact('' @ d # run @ '')''
      \<in> set (replace_loop post (replace_loop pre [] @ [''fact('' @ d # run @ '')'']))"
    by blast
  from piece_in_concat [OF this] eq [of out] eq [of "[]"] show ?thesis
    by (simp add: replace_factorial_def factorial_five factorial_zero)
qed

theorem digit_run_factorial_witness:
  "isdigit (CHR ''1'') \<and> is_run_char (CHR ''.'') \<and> is_run_char (CHR ''5'')
   \<and> \<not> is_run_char (CHR ''+'')
   \<and> replace_factorial ''2+1.5!*3'' = ''2+fact(1.5)*3''
   \<and> evaluate_silent (CalcApp_init\<lparr>entry := ''5!''\<rparr>)
       = (Return 120, CalcApp_init\<lparr>entry := ''5!''\<rparr>)"
proof -
  have h1: "isdigit (CHR ''1'')" by code_simp
  have h2: "\<forall>c \<in> set ''.5''. is_run_char c" by code_simp
  have h3: "''2+'' = [] \<or> \<not> is_run_char (last ''2+'')" by code_simp
  have r: "concat (replace_loop ''*3'' (replace_loop ''2+'' [] @ [''fact('' @ CHR ''1'' # ''.5'' @ '')'']))
      = ''2+fact(1.5)*3''"
    by code_simp
  have f: "is_run_char (CHR ''.'')" "is_run_char (CHR ''5'')" "\<not> is_run_char (CHR ''+'')"
    by code_simp+
  from digit_run_factorial [OF h1 h2 h3, of "''*3''" "[]" CalcApp_init] r h1 f
  show ?thesis by simp
qed


section \<open>Syntax errors and other rejections\<close>

text \<open>
  The visitor and the functions it calls raise several errors, but never the
  \<^verbatim>\<open>ValueError("Syntax error.")\<close> of line 219.
\<close>

lemma bind_never:
  assumes "m \<noteq> Raise e" and "\<And>x. f x \<noteq> Raise e"
  shows "bind m f \<noteq> Raise e"
  using assms by (cases m) (simp_all add: bind_def)

lemma bind_eq_Raise:
  "bind m f = Raise e \<longleftrightarrow> m = Raise e \<or> (\<exists>x. m = Return x \<and> f x = Raise e)"
  by (cases m) (simp_all add: bind_def)

lemma operators_never_syntax_error:
  "operator_add a b \<noteq> Raise (ValueError ''Syntax error.'')"
  "operator_sub a b \<noteq> Raise (ValueError ''Syntax error.'')"
  "operator_mul a b \<noteq> Raise (ValueError ''Syntax error.'')"
  "operator_truediv a b \<noteq> Raise (ValueError ''Syntax error.'')"
  "operator_floordiv a b \<noteq> Raise (ValueError ''Syntax error.'')"
  "operator_mod a b \<noteq> Raise (ValueError ''Syntax error.'')"
  "operator_pow a b \<noteq> Raise (ValueError ''Syntax error.'')"
  "operator_pos a \<noteq> Raise (ValueError ''Syntax error.'')"
  "operator_neg a \<noteq> Raise (ValueError ''Syntax error.'')"
  by (simp_all add: operator_add_def operator_sub_def operator_mul_def operator_truediv_def
        operator_floordiv_def operator_mod_def operator_pow_def float_pow_def
        operator_pos_def operator_neg_def split: pyval.splits)

lemma bin_ops_never_syntax_error:
  assumes "bin_ops op = Some f"
  shows "f a b \<noteq> Raise (ValueError ''Syntax error.'')"
  using assms operators_never_syntax_error
  by (cases op) (auto simp: bin_ops_def)

lemma unary_ops_never_syntax_error:
  assumes "unary_ops op = Some f"
  shows "f a \<noteq> Raise (ValueError ''Syntax error.'')"
  using assms operators_never_syntax_error
  by (cases op) (auto simp: unary_ops_def)

lemma math_unary_never:
  assumes "\<And>x. f x \<noteq> Raise e" and "e \<noteq> TypeError"
  shows "math_unary f args kws \<noteq> Raise e"
  using assms by (auto simp: math_unary_def split: list.splits)

lemma lambda_x_never:
  assumes "\<And>v. body v \<noteq> Raise e" and "e \<noteq> TypeError"
  shows "lambda_x body args kws \<noteq> Raise e"
  using assms by (auto simp: lambda_x_def split: list.splits option.splits)

lemma math_never_syntax_error:
  "math_sin args kws \<noteq> Raise (ValueError ''Syntax error.'')"
  "math_cos args kws \<noteq> Raise (ValueError ''Syntax error.'')"
  "math_tan args kws \<noteq> Raise (ValueError ''Syntax error.'')"
  "math_asin args kws \<noteq> Raise (ValueError ''Syntax error.'')"
  "math_acos args kws \<noteq> Raise (ValueError ''Syntax error.'')"
  "math_atan args kws \<noteq> Raise (ValueError ''Syntax error.'')"
  "math_sqrt args kws \<noteq> Raise (ValueError ''Syntax error.'')"
  "math_floor args kws \<noteq> Raise (ValueError ''Syntax error.'')"
  "math_ceil args kws \<noteq> Raise (ValueError ''Syntax error.'')"
  unfolding math_sin_def math_cos_def math_tan_def math_asin_def math_acos_def
    math_atan_def math_sqrt_def math_floor_def math_ceil_def
  by (rule math_unary_never; simp add: domain_error_def)+

lemma math_log_never_syntax_error:
  "math_log args kws \<noteq> Raise (ValueError ''Syntax error.'')"
proof -
  have h: "log_helper v \<noteq> Raise (ValueError ''Syntax error.'')" for v
    by (simp add: log_helper_def domain_error_def)
  show ?thesis
    using h by (auto simp: math_log_def bind_eq_Raise split: list.splits)
qed

lemma others_never_syntax_error:
  "math_factorial args kws \<noteq> Raise (ValueError ''Syntax error.'')"
  "builtin_abs args kws \<noteq> Raise (ValueError ''Syntax error.'')"
  "builtin_pow args kws \<noteq> Raise (ValueError ''Syntax error.'')"
  "math_radians v \<noteq> Raise (ValueError ''Syntax error.'')"
  "math_degrees v \<noteq> Raise (ValueError ''Syntax error.'')"
  using operators_never_syntax_error
  by (auto simp: math_factorial_def builtin_abs_def builtin_pow_def math_radians_def
        math_degrees_def split: list.splits pyval.splits)

lemma log_lambda_never_syntax_error:
  "log_lambda args kws \<noteq> Raise (ValueError ''Syntax error.'')"
  using math_log_never_syntax_error
  by (auto simp: log_lambda_def Let_def split: list.splits option.splits)

lemma wrap_never_syntax_error:
  assumes "\<And>args kws. f args kws \<noteq> Raise (ValueError ''Syntax error.'')"
  shows "wrap_trig deg f args kws \<noteq> Raise (ValueError ''Syntax error.'')"
    and "wrap_atrig deg f args kws \<noteq> Raise (ValueError ''Syntax error.'')"
proof -
  have 1: "bind (math_radians x) (\<lambda>r. f [r] []) \<noteq> Raise (ValueError ''Syntax error.'')" for x
    using assms others_never_syntax_error by (simp add: bind_eq_Raise)
  have 2: "bind (f [x] []) math_degrees \<noteq> Raise (ValueError ''Syntax error.'')" for x
    using assms others_never_syntax_error by (simp add: bind_eq_Raise)
  show "wrap_trig deg f args kws \<noteq> Raise (ValueError ''Syntax error.'')"
    unfolding wrap_trig_def using assms 1 by (simp add: lambda_x_never)
  show "wrap_atrig deg f args kws \<noteq> Raise (ValueError ''Syntax error.'')"
    unfolding wrap_atrig_def using assms 2 by (simp add: lambda_x_never)
qed

lemma funcs_never_syntax_error:
  assumes "funcs deg name = Some fn"
  shows "fn args kws \<noteq> Raise (ValueError ''Syntax error.'')"
  using assms math_never_syntax_error math_log_never_syntax_error others_never_syntax_error
    log_lambda_never_syntax_error wrap_never_syntax_error
  by (auto simp: funcs_def split: if_splits)

lemma visit_never_syntax_error:
  "visit ev n \<noteq> Raise (ValueError ''Syntax error.'')"
  "visit_args ev ns \<noteq> Raise (ValueError ''Syntax error.'')"
  "visit_keywords ev ks \<noteq> Raise (ValueError ''Syntax error.'')"
proof (induction ev n and ev ns and ev ks rule: visit_visit_args_visit_keywords.induct)
  case (2 ev c)
  show ?case by (cases c) simp_all
next
  case (3 ev left op right)
  show ?case
  proof (cases "bin_ops op")
    case None
    then show ?thesis by simp
  next
    case (Some f)
    with 3 bin_ops_never_syntax_error [OF Some] show ?thesis
      by (simp add: bind_eq_Raise)
  qed
next
  case (4 ev op operand)
  show ?case
  proof (cases "unary_ops op")
    case None
    then show ?thesis by simp
  next
    case (Some f)
    with 4 unary_ops_never_syntax_error [OF Some] show ?thesis
      by (simp add: bind_eq_Raise)
  qed
next
  case (5 ev func args kwds)
  show ?case
  proof (cases func)
    case (Name name)
    show ?thesis
    proof (cases "funcs (deg_mode ev) name")
      case None
      with Name show ?thesis by simp
    next
      case (Some fn)
      with Name 5 funcs_never_syntax_error [OF Some] show ?thesis
        by (simp add: bind_eq_Raise)
    qed
  qed simp_all
next
  case (6 ev ident)
  show ?case by (simp split: option.splits)
next
  case (11 ev a as)
  then show ?case by (simp add: bind_eq_Raise)
next
  case (13 ev k a kws)
  then show ?case by (simp add: bind_eq_Raise)
qed simp_all

lemma eval_is_syntax_error_iff:
  "SafeEvaluator_eval ev s = Raise (ValueError ''Syntax error.'')
     \<longleftrightarrow> ast_parse (canonical s) = SyntaxError"
  using visit_never_syntax_error(1)
  by (cases "ast_parse (canonical s)") (simp_all add: SafeEvaluator_eval_def)

lemma assignment_is_syntax_error:
  "ast_parse (canonical ''x=1'') = SyntaxError"
  by code_simp

lemma dangling_plus_is_syntax_error:
  "ast_parse (canonical ''1 +'') = SyntaxError"
  by code_simp

lemma string_literal_evaluated:
  "SafeEvaluator_eval ev [CHR 0x27, CHR ''a'', CHR 0x27]
     = Raise (ValueError ''Only numeric constants allowed.'')"
proof -
  have c: "canonical [CHR 0x27, CHR ''a'', CHR 0x27] = [CHR 0x27, CHR ''a'', CHR 0x27]"
    by code_simp
  have p: "ast_parse [CHR 0x27, CHR ''a'', CHR 0x27] = Parsed (Expression (Constant (CStr ''a'')))"
    by code_simp
  show ?thesis by (simp add: SafeEvaluator_eval_def c p)
qed

lemma string_literal_entry:
  "evaluate_silent (app\<lparr>entry := [CHR 0x27, CHR ''a'', CHR 0x27]\<rparr>)
     = (Raise (ValueError ''Only numeric constants allowed.''),
        app\<lparr>entry := [CHR 0x27, CHR ''a'', CHR 0x27]\<rparr>)"
proof -
  have s: "strip [CHR 0x27, CHR ''a'', CHR 0x27] = [CHR 0x27, CHR ''a'', CHR 0x27]"
    by code_simp
  show ?thesis
    by (simp add: evaluate_silent_def s string_literal_evaluated bind_def Let_def)
qed

lemma true_entry:
  "evaluate_silent (app\<lparr>entry := ''True''\<rparr>) = (Return 1, app\<lparr>entry := ''True''\<rparr>)"
proof -
  have s: "strip ''True'' = ''True''" by code_simp
  have c: "canonical ''True'' = ''True''" by code_simp
  have p: "ast_parse ''True'' = Parsed (Expression (Constant (CBool True)))" by code_simp
  have v: "visit ev (Expression (Constant (CBool True))) = Return (BoolV True)" for ev
    by simp
  have "evaluate_silent (app\<lparr>entry := ''True''\<rparr>)
      = (Return (real_of (BoolV True)), app\<lparr>entry := ''True''\<rparr>)"
    by (rule evaluate_silent_returns [OF _ _ c p]) (simp_all add: s v del: visit.simps)
  then show ?thesis by simp
qed

lemma comparison_entry:
  "evaluate_silent (app\<lparr>entry := ''1 < 2''\<rparr>) = (Raise AttributeError, app\<lparr>entry := ''1 < 2''\<rparr>)"
proof -
  have s: "strip ''1 < 2'' = ''1 < 2''" by code_simp
  have c: "canonical ''1 < 2'' = ''1 < 2''" by code_simp
  have p: "ast_parse ''1 < 2'' =
      Parsed (Expression (Compare (Constant (CInt 1)) [Lt] [Constant (CInt 2)]))"
    by code_simp
  have v: "visit ev (Expression (Compare (Constant (CInt 1)) [Lt] [Constant (CInt 2)]))
      = Raise AttributeError" for ev
    by simp
  show ?thesis
    by (rule evaluate_silent_raises [OF _ _ c p]) (simp_all add: s v del: visit.simps)
qed

text \<open>
  Claim C4 says that every construct outside the whitelisted grammar, among them
  comparisons and string and boolean literals, is reported as a syntax error, with
  \<^verbatim>\<open>1 < 2\<close> and \<^verbatim>\<open>True\<close> as examples. Line 217 uses Python's own parser, which
  accepts all of these; what is not whitelisted is turned down later, by the visitor,
  with errors of its own. A string literal raises
  \<^verbatim>\<open>ValueError("Only numeric constants allowed.")\<close> at line 119. \<^verbatim>\<open>True\<close> is a
  \<^verbatim>\<open>bool\<close>, hence an \<^verbatim>\<open>int\<close>, passes the test of line 117 and evaluates to 1.0.
  The comparison reaches line 150, whose \<^verbatim>\<open>ast.Paren\<close> does not exist, and ends in
  an \<^verbatim>\<open>AttributeError\<close>.
\<close>

theorem not_every_rejection_is_a_syntax_error_counterexample:
  "evaluate_silent (CalcApp_init\<lparr>entry := [CHR 0x27, CHR ''a'', CHR 0x27]\<rparr>)
     = (Raise (ValueError ''Only numeric constants allowed.''),
        CalcApp_init\<lparr>entry := [CHR 0x27, CHR ''a'', CHR 0x27]\<rparr>)
   \<and> evaluate_silent (CalcApp_init\<lparr>entry := ''True''\<rparr>)
     = (Return 1, CalcApp_init\<lparr>entry := ''True''\<rparr>)
   \<and> evaluate_silent (CalcApp_init\<lparr>entry := ''1 < 2''\<rparr>)
     = (Raise AttributeError, CalcApp_init\<lparr>entry := ''1 < 2''\<rparr>)"
  by (simp only: string_literal_entry true_entry comparison_entry)


text \<open>
  Claim C4, amended. The evaluation reports \<^verbatim>\<open>Syntax error.\<close> exactly when the host
  parser rejects the canonical string, as it does for the assignment \<^verbatim>\<open>x=1\<close> and for
  \<^verbatim>\<open>1 +\<close>, and then no result is returned. What the host parser accepts is never
  reported as a syntax error: a string literal fails with
  \<^verbatim>\<open>Only numeric constants allowed.\<close>
\<close>

theorem syntax_error_iff_parser_rejects:
  "(SafeEvaluator_eval ev s = Raise (ValueError ''Syntax error.'')
      \<longleftrightarrow> ast_parse (canonical s) = SyntaxError)
   \<and> SafeEvaluator_eval ev ''x=1'' = Raise (ValueError ''Syntax error.'')
   \<and> SafeEvaluator_eval ev ''1 +'' = Raise (ValueError ''Syntax error.'')
   \<and> visit ev (Constant (CStr x)) = Raise (ValueError ''Only numeric constants allowed.'')
   \<and> SafeEvaluator_eval ev [CHR 0x27, CHR ''a'', CHR 0x27]
       = Raise (ValueError ''Only numeric constants allowed.'')"
  using eval_is_syntax_error_iff [of ev s]
    eval_is_syntax_error_iff [of ev "''x=1''"] assignment_is_syntax_error
    eval_is_syntax_error_iff [of ev "''1 +''"] dangling_plus_is_syntax_error
    string_literal_evaluated [of ev]
  by simp

theorem syntax_error_iff_parser_rejects_witness:
  "ast_parse (canonical ''x=1'') = SyntaxError
   \<and> SafeEvaluator_eval (SafeEvaluator [''Ans'' \<mapsto> FloatV 0] True) ''x=1''
       = Raise (ValueError ''Syntax error.'')
   \<and> ast_parse (canonical ''2+3'') \<noteq> SyntaxError
   \<and> SafeEvaluator_eval (SafeEvaluator [''Ans'' \<mapsto> FloatV 0] True) ''2+3''
       \<noteq> Raise (ValueError ''Syntax error.'')"
proof -
  have a: "ast_parse (canonical ''x=1'') = SyntaxError" by code_simp
  have b: "ast_parse (canonical ''2+3'') \<noteq> SyntaxError" by code_simp
  from a b
    syntax_error_iff_parser_rejects [of "SafeEvaluator [''Ans'' \<mapsto> FloatV 0] True" "''x=1''"]
    syntax_error_iff_parser_rejects [of "SafeEvaluator [''Ans'' \<mapsto> FloatV 0] True" "''2+3''"]
  show ?thesis by simp
qed


end
